theory Spec2Isabelle
  imports Main "HOL-Library.Word"
begin

section \<open>Errors and the file tree\<close>

text \<open>
  Go errors as values. \<open>PathError op path\<close> is what the \<open>os\<close> package returns
  (\<open>*fs.PathError\<close>), \<open>WithStack\<close> is \<open>errors.WithStack\<close>, \<open>Errorf\<close> is
  \<open>errors.Errorf\<close> with the formatted message, \<open>ErrSilent\<close> is
  \<open>cmdutils.ErrSilent\<close>, \<open>SignalError\<close> is \<open>cmdutils.NewSignalError\<close> of the named
  signal and \<open>SilentError\<close> is \<open>cmdutils.WrapSilentError\<close>. \<open>NilDeref\<close> stands for the runtime panic of a method call
  on a nil interface value; it is never returned to a caller as an error value, the
  functions below turn it into the outcome \<open>Panics\<close>.
\<close>

datatype error =
    PathError string string
  | Errorf string
  | WithStack error
  | ErrSilent
  | SignalError string
  | SilentError error
  | NilDeref

text \<open>
  A file tree as the directory walks of \<open>path/filepath\<close> see it. \<open>File n\<close> is a
  non-directory entry of size \<open>n\<close> (the walks use \<open>Lstat\<close>, so a symbolic link is such
  an entry too), \<open>Gone e\<close> is a non-directory entry whose \<open>Lstat\<close> fails with \<open>e\<close>,
  \<open>Dir es\<close> is a directory with its entries in the order the walk reads them (sorted by
  name), \<open>BadDir e\<close> is a directory whose listing fails with \<open>e\<close>.
\<close>

datatype node =
    File nat
  | Gone error
  | Dir "(string \<times> node) list"
  | BadDir error

text \<open>
  The file system maps a path given to \<open>os.Stat\<close>, \<open>os.Lstat\<close> or a walk to the
  tree found there; \<open>None\<close> is a path that does not exist or cannot be accessed.
  The empty path names no file.
\<close>

type_synonym filesys = "string \<Rightarrow> node option"

type_synonym uint = "64 word"

fun IsDir :: "node \<Rightarrow> bool" where
  "IsDir (Dir es) = True"
| "IsDir (BadDir e) = True"
| "IsDir (File n) = False"
| "IsDir (Gone e) = False"

text \<open>\<open>d.Info()\<close> followed by \<open>info.Size()\<close>; the size of a directory is not used.\<close>

fun InfoSize :: "node \<Rightarrow> error + nat" where
  "InfoSize (File n) = Inr n"
| "InfoSize (Gone e) = Inl e"
| "InfoSize (Dir es) = Inr 0"
| "InfoSize (BadDir e) = Inr 0"

definition Lstat :: "filesys \<Rightarrow> string \<Rightarrow> error + node" where
  "Lstat fs p =
     (if p = [] then Inl (PathError ''lstat'' p)
      else (case fs p of
              None \<Rightarrow> Inl (PathError ''lstat'' p)
            | Some (Gone e) \<Rightarrow> Inl e
            | Some n \<Rightarrow> Inr n))"

definition Stat :: "filesys \<Rightarrow> string \<Rightarrow> error + node" where
  "Stat fs p =
     (if p = [] then Inl (PathError ''stat'' p)
      else (case fs p of
              None \<Rightarrow> Inl (PathError ''stat'' p)
            | Some (Gone e) \<Rightarrow> Inl e
            | Some n \<Rightarrow> Inr n))"

text \<open>
  \<open>filepath.Clean\<close> and \<open>filepath.Join\<close> for slash-separated paths. \<open>Clean\<close>
  goes through the elements of the path: an empty element and \<open>.\<close> are dropped,
  \<open>..\<close> removes the element before it, is dropped at the root and is kept at the
  start of a path that is not rooted. The result of an empty path is \<open>.\<close>.
  \<open>Join\<close> ignores empty elements, joins the others with a separator and cleans the
  result; with no element left it returns the empty string.
\<close>

fun joinSep :: "string list \<Rightarrow> string" where
  "joinSep [] = []"
| "joinSep [x] = x"
| "joinSep (x # y # zs) = x @ ''/'' @ joinSep (y # zs)"

fun splitSlash :: "string \<Rightarrow> string list" where
  "splitSlash [] = [[]]"
| "splitSlash (c # cs) =
     (if c = CHR ''/'' then [] # splitSlash cs
      else (case splitSlash cs of [] \<Rightarrow> [[c]] | x # xs \<Rightarrow> (c # x) # xs))"

text \<open>\<open>out\<close> holds the elements kept so far, the last one first.\<close>

fun cleanElems :: "bool \<Rightarrow> string list \<Rightarrow> string list \<Rightarrow> string list" where
  "cleanElems rooted out [] = rev out"
| "cleanElems rooted out (e # es) =
     (if e = [] \<or> e = ''.'' then cleanElems rooted out es
      else if e = ''..'' then
        (case out of
           [] \<Rightarrow> if rooted then cleanElems rooted [] es else cleanElems rooted [''..''] es
         | l # ls \<Rightarrow> if l = ''..'' then cleanElems rooted (''..'' # out) es
                     else cleanElems rooted ls es)
      else cleanElems rooted (e # out) es)"

definition Clean :: "string \<Rightarrow> string" where
  "Clean path =
     (if path = [] then ''.''
      else if take 1 path = ''/'' then ''/'' @ joinSep (cleanElems True [] (splitSlash path))
      else (case cleanElems False [] (splitSlash path) of
              [] \<Rightarrow> ''.''
            | e # es \<Rightarrow> joinSep (e # es)))"

definition Join :: "string list \<Rightarrow> string" where
  "Join elem =
     (case filter (\<lambda>e. e \<noteq> []) elem of
        [] \<Rightarrow> []
      | e # es \<Rightarrow> Clean (joinSep (e # es)))"

section \<open>filepath.WalkDir and countSeeds\<close>

text \<open>
  \<open>filepath.WalkDir\<close> with a callback that threads a state \<open>'s\<close> (the variables the
  closure captures). The callback gets the path, the entry (\<open>None\<close> for Go's nil) and
  the error of the failed operation. The sentinel \<open>SkipDir\<close> is left out: the callbacks
  of this program return only nil or the error they were given or got from the entry.
\<close>

type_synonym 's WalkDirFunc = "string \<Rightarrow> node option \<Rightarrow> error option \<Rightarrow> 's \<Rightarrow> 's \<times> error option"

fun walkDir :: "'s WalkDirFunc \<Rightarrow> string \<Rightarrow> node \<Rightarrow> 's \<Rightarrow> 's \<times> error option"
  and walkDirEntries :: "'s WalkDirFunc \<Rightarrow> string \<Rightarrow> (string \<times> node) list \<Rightarrow> 's \<Rightarrow> 's \<times> error option"
where
  "walkDir fn path (File n) s = fn path (Some (File n)) None s"
| "walkDir fn path (Gone e) s = fn path (Some (Gone e)) None s"
| "walkDir fn path (Dir es) s =
     (case fn path (Some (Dir es)) None s of
        (s1, Some err) \<Rightarrow> (s1, Some err)
      | (s1, None) \<Rightarrow> walkDirEntries fn path es s1)"
| "walkDir fn path (BadDir e) s =
     (case fn path (Some (BadDir e)) None s of
        (s1, Some err) \<Rightarrow> (s1, Some err)
      | (s1, None) \<Rightarrow>
         (case fn path (Some (BadDir e)) (Some e) s1 of
            (s2, Some err) \<Rightarrow> (s2, Some err)
          | (s2, None) \<Rightarrow> (s2, None)))"
| "walkDirEntries fn path [] s = (s, None)"
| "walkDirEntries fn path ((name, d1) # ds) s =
     (case walkDir fn (Join [path, name]) d1 s of
        (s1, Some err) \<Rightarrow> (s1, Some err)
      | (s1, None) \<Rightarrow> walkDirEntries fn path ds s1)"

definition WalkDir :: "filesys \<Rightarrow> string \<Rightarrow> 's WalkDirFunc \<Rightarrow> 's \<Rightarrow> 's \<times> error option" where
  "WalkDir fs root fn s =
     (case Lstat fs root of
        Inl err \<Rightarrow> fn root None (Some err) s
      | Inr d \<Rightarrow> walkDir fn root d s)"

text \<open>
  The closure passed to \<open>WalkDir\<close> in \<open>countSeeds\<close>; its state is \<open>seedsInDir\<close>.
  The entry is only read after \<open>err\<close> was found nil, where \<open>WalkDir\<close> never passes
  a nil entry; the model gives that case the panic Go would raise.
\<close>

definition countSeedsFn :: "uint WalkDirFunc" where
  "countSeedsFn path d err seedsInDir =
     (case err of
        Some e \<Rightarrow> (seedsInDir, Some e)
      | None \<Rightarrow>
         (case d of
            None \<Rightarrow> (seedsInDir, Some NilDeref)
          | Some d \<Rightarrow>
             if IsDir d then (seedsInDir, None)
             else (case InfoSize d of
                     Inl e \<Rightarrow> (seedsInDir, Some e)
                   | Inr sz \<Rightarrow>
                       if sz \<noteq> 0 then (seedsInDir + 1, None) else (seedsInDir, None))))"

text \<open>
  \<open>countSeeds\<close>: the loop over \<open>seedDirs\<close> with the named result \<open>numSeeds\<close> as
  accumulator. The result is the pair Go returns, \<open>(numSeeds, err)\<close>.
\<close>

fun countSeedsLoop :: "filesys \<Rightarrow> string list \<Rightarrow> uint \<Rightarrow> uint \<times> error option" where
  "countSeedsLoop fs [] numSeeds = (numSeeds, None)"
| "countSeedsLoop fs (dir # dirs) numSeeds =
     (case WalkDir fs dir countSeedsFn 0 of
        (seedsInDir, Some err) \<Rightarrow> (0, Some (WithStack err))
      | (seedsInDir, None) \<Rightarrow> countSeedsLoop fs dirs (numSeeds + seedsInDir))"

definition countSeeds :: "filesys \<Rightarrow> string list \<Rightarrow> uint \<times> error option" where
  "countSeeds fs seedDirs = countSeedsLoop fs seedDirs 0"

subsection \<open>What a seed directory holds\<close>

text \<open>
  The number of non-empty non-directory entries below a node, at any depth, and the
  first failure a walk of the node meets (in the order of the walk).
\<close>

fun nonEmptyFiles :: "node \<Rightarrow> nat"
  and nonEmptyFilesIn :: "(string \<times> node) list \<Rightarrow> nat"
where
  "nonEmptyFiles (File n) = (if n \<noteq> 0 then 1 else 0)"
| "nonEmptyFiles (Gone e) = 0"
| "nonEmptyFiles (Dir es) = nonEmptyFilesIn es"
| "nonEmptyFiles (BadDir e) = 0"
| "nonEmptyFilesIn [] = 0"
| "nonEmptyFilesIn ((name, d) # es) = nonEmptyFiles d + nonEmptyFilesIn es"

fun walkFailure :: "node \<Rightarrow> error option"
  and walkFailureIn :: "(string \<times> node) list \<Rightarrow> error option"
where
  "walkFailure (File n) = None"
| "walkFailure (Gone e) = Some e"
| "walkFailure (Dir es) = walkFailureIn es"
| "walkFailure (BadDir e) = Some e"
| "walkFailureIn [] = None"
| "walkFailureIn ((name, d) # es) =
     (case walkFailure d of Some e \<Rightarrow> Some e | None \<Rightarrow> walkFailureIn es)"

text \<open>The same two for a seed directory given by its path.\<close>

definition seedsAt :: "filesys \<Rightarrow> string \<Rightarrow> nat" where
  "seedsAt fs dir = (case Lstat fs dir of Inl e \<Rightarrow> 0 | Inr d \<Rightarrow> nonEmptyFiles d)"

definition failureAt :: "filesys \<Rightarrow> string \<Rightarrow> error option" where
  "failureAt fs dir = (case Lstat fs dir of Inl e \<Rightarrow> Some e | Inr d \<Rightarrow> walkFailure d)"

text \<open>
  In the words of the specification: the number of non-empty files across all the
  directories. \<open>nonEmptyPaths\<close> lists the non-empty files below a node by their paths,
  \<open>seedPathsAt\<close> those of a seed directory, and \<open>nonEmptyFilesAcross\<close> counts the
  files of all the directories, a file that two of them reach being one file.
\<close>

fun nonEmptyPaths :: "string \<Rightarrow> node \<Rightarrow> string list"
  and nonEmptyPathsIn :: "string \<Rightarrow> (string \<times> node) list \<Rightarrow> string list"
where
  "nonEmptyPaths path (File n) = (if n \<noteq> 0 then [path] else [])"
| "nonEmptyPaths path (Gone e) = []"
| "nonEmptyPaths path (Dir es) = nonEmptyPathsIn path es"
| "nonEmptyPaths path (BadDir e) = []"
| "nonEmptyPathsIn path [] = []"
| "nonEmptyPathsIn path ((name, d) # es) =
     nonEmptyPaths (Join [path, name]) d @ nonEmptyPathsIn path es"

definition seedPathsAt :: "filesys \<Rightarrow> string \<Rightarrow> string list" where
  "seedPathsAt fs dir = (case Lstat fs dir of Inl e \<Rightarrow> [] | Inr d \<Rightarrow> nonEmptyPaths dir d)"

definition nonEmptyFilesAcross :: "filesys \<Rightarrow> string list \<Rightarrow> nat" where
  "nonEmptyFilesAcross fs seedDirs = length (remdups (concat (map (seedPathsAt fs) seedDirs)))"

text \<open>
  Two file systems to run \<open>countSeeds\<close> on: seed directories with three non-empty
  files and an empty one, and with two non-empty files; and a tree with a nested
  directory next to a directory that cannot be listed.
\<close>

definition seedsFs :: filesys where
  "seedsFs =
     [''/seeds/a'' \<mapsto> Dir [(''crash-1'', File 12), (''empty'', File 0),
                                (''seed-1'', File 3), (''seed-2'', File 40)],
      ''/seeds/b'' \<mapsto> Dir [(''x'', File 1), (''y'', File 2)]]"

definition nestedFs :: filesys where
  "nestedFs =
     [''/corpus'' \<mapsto> Dir [(''a'', File 5),
                               (''sub'', Dir [(''b'', File 7), (''deep'', Dir [(''c'', File 1)])]),
                               (''z'', File 0)],
      ''/locked'' \<mapsto> Dir [(''k'', File 9), (''priv'', BadDir (PathError ''open'' ''/locked/priv''))]]"

section \<open>The installation bundler\<close>

text \<open>
  \<open>Options\<close> and \<open>InstallationBundler\<close> of package \<open>install\<close>. The bundler has the
  two fields of the options and three of its own; the mutex is the lock file it was
  made for.
\<close>

record Options =
  Version :: string
  TargetDir :: string

record InstallationBundler = Options +
  projectDir :: string
  mutex :: string
  isLocked :: bool

text \<open>
  What the operating system answers to the calls of the constructor. Go's pair of a
  value and an error is a pair of the value and an \<open>error option\<close>.
  \<open>FindProjectDir\<close> reads only the working directory and is taken by its result.
\<close>

record installEnv =
  UserHomeDir :: "string \<times> error option"
  MkdirTemp :: "string \<times> error option"
  Abs :: "string \<Rightarrow> string \<times> error option"
  Exists :: "string \<Rightarrow> bool \<times> error option"
  FindProjectDir :: "string \<times> error option"
  filemutexNew :: "string \<Rightarrow> error option"
  MkdirAllErr :: "string \<Rightarrow> error option"

text \<open>The calls that change the file system, in the order they are made.\<close>

datatype oscall =
    CallMkdirTemp
  | CallMkdirAll string
  | CallMutexNew string
  | CallCleanup string
  | CallRemove string

definition validateTargetDir :: "installEnv \<Rightarrow> string \<Rightarrow> string \<times> error option \<times> oscall list" where
  "validateTargetDir env installDir0 =
     (case (if take 1 installDir0 = ''~''
            then (case UserHomeDir env of
                    (home, Some err) \<Rightarrow> Inl (WithStack err)
                  | (home, None) \<Rightarrow> Inr (home @ drop 1 installDir0))
            else Inr installDir0) of
        Inl err \<Rightarrow> ([], Some err, [])
      | Inr installDir \<Rightarrow>
          if installDir = [] then
            (case MkdirTemp env of
               (d, Some err) \<Rightarrow> ([], Some (WithStack err), [CallMkdirTemp])
             | (d, None) \<Rightarrow> (d, None, [CallMkdirTemp]))
          else
            (case Abs env installDir of
               (d, Some err) \<Rightarrow> ([], Some (WithStack err), [])
             | (d, None) \<Rightarrow>
                 (case Exists env d of
                    (ex, Some err) \<Rightarrow> ([], Some err, [])
                  | (ex, None) \<Rightarrow>
                      if ex then
                        ([], Some (Errorf (''Install directory '' @ [CHR 0x27] @ d @ [CHR 0x27]
                                @ '' already exists. Please remove it to continue.'')), [])
                      else (d, None, []))))"

definition binDir :: "'a InstallationBundler_scheme \<Rightarrow> string" where
  "binDir i = Join [TargetDir i, ''bin'']"

definition libDir :: "'a InstallationBundler_scheme \<Rightarrow> string" where
  "libDir i = Join [TargetDir i, ''lib'']"

definition shareDir :: "'a InstallationBundler_scheme \<Rightarrow> string" where
  "shareDir i = Join [TargetDir i, ''share'', ''cifuzz'']"

definition lockFile :: "'a InstallationBundler_scheme \<Rightarrow> string" where
  "lockFile i = Join [projectDir i, ''.installer-lock'']"

text \<open>\<open>Cleanup\<close> removes the target directory and the lock file.\<close>

definition Cleanup :: "'a InstallationBundler_scheme \<Rightarrow> oscall list" where
  "Cleanup i = [CallCleanup (TargetDir i), CallRemove (lockFile i)]"

definition createDirectoryLayout :: "installEnv \<Rightarrow> 'a InstallationBundler_scheme \<Rightarrow> error option \<times> oscall list" where
  "createDirectoryLayout env i =
     (case MkdirAllErr env (binDir i) of
        Some err \<Rightarrow> (Some (WithStack err), CallMkdirAll (binDir i) # Cleanup i)
      | None \<Rightarrow>
         (case MkdirAllErr env (libDir i) of
            Some err \<Rightarrow>
              (Some (WithStack err), [CallMkdirAll (binDir i), CallMkdirAll (libDir i)] @ Cleanup i)
          | None \<Rightarrow>
             (case MkdirAllErr env (shareDir i) of
                Some err \<Rightarrow>
                  (Some (WithStack err),
                   [CallMkdirAll (binDir i), CallMkdirAll (libDir i), CallMkdirAll (shareDir i)]
                     @ Cleanup i)
              | None \<Rightarrow>
                  (None,
                   [CallMkdirAll (binDir i), CallMkdirAll (libDir i), CallMkdirAll (shareDir i)]))))"

text \<open>
  \<open>NewInstallationBundler\<close>. The result is Go's pair of a pointer (\<open>None\<close> for nil)
  and an error, with the calls made. The local \<open>err\<close> is declared without a value,
  so it is nil where the check of the version returns it.
\<close>

definition NewInstallationBundler ::
    "installEnv \<Rightarrow> Options \<Rightarrow> InstallationBundler option \<times> error option \<times> oscall list" where
  "NewInstallationBundler env opts =
     (let err = (None :: error option) in
      if Version opts = [] then (None, err, [])
      else
        (case validateTargetDir env (TargetDir opts) of
           (targetDir, Some err, cs) \<Rightarrow> (None, Some err, cs)
         | (targetDir, None, cs) \<Rightarrow>
            (case FindProjectDir env of
               (pd, Some err) \<Rightarrow> (None, Some err, cs)
             | (pd, None) \<Rightarrow>
                (let i = \<lparr>Version = Version opts, TargetDir = targetDir,
                          projectDir = pd, mutex = [], isLocked = False\<rparr> in
                 (case filemutexNew env (lockFile i) of
                    Some err \<Rightarrow> (None, Some (WithStack err), cs @ [CallMutexNew (lockFile i)])
                  | None \<Rightarrow>
                     (let i = i\<lparr>mutex := lockFile i\<rparr> in
                      (case createDirectoryLayout env i of
                         (Some err, cs2) \<Rightarrow>
                           (None, Some (WithStack err), cs @ [CallMutexNew (lockFile i)] @ cs2)
                       | (None, cs2) \<Rightarrow>
                           (Some i, None, cs @ [CallMutexNew (lockFile i)] @ cs2))))))))"

text \<open>An environment in which the constructor succeeds for a version that is not empty.\<close>

definition installEnv0 :: installEnv where
  "installEnv0 =
     \<lparr>UserHomeDir = (''/home/u'', None),
      MkdirTemp = (''/tmp/cifuzz-install-dir-1'', None),
      Abs = (\<lambda>p. (p, None)),
      Exists = (\<lambda>p. (False, None)),
      FindProjectDir = (''/src/cifuzz'', None),
      filemutexNew = (\<lambda>p. None),
      MkdirAllErr = (\<lambda>p. None)\<rparr>"

section \<open>filepath.Walk and findFuzzTestExecutable\<close>

text \<open>
  \<open>filepath.Walk\<close>. Its callback gets the path, the \<open>FileInfo\<close> of the entry (here
  the name \<open>info.Name()\<close> with the node; \<open>None\<close> for Go's nil) and an error. Where
  \<open>Lstat\<close> of the root or of an entry fails, \<open>Walk\<close> calls the function with a nil
  \<open>FileInfo\<close> and returns its error: the clause for \<open>Gone\<close>. A directory is listed
  first and the function called once, with the error of the listing. As in
  \<open>walkDir\<close>, the sentinel \<open>SkipDir\<close> is left out.
\<close>

type_synonym 's WalkFunc =
  "string \<Rightarrow> (string \<times> node) option \<Rightarrow> error option \<Rightarrow> 's \<Rightarrow> 's \<times> error option"

fun walk :: "'s WalkFunc \<Rightarrow> string \<Rightarrow> string \<Rightarrow> node \<Rightarrow> 's \<Rightarrow> 's \<times> error option"
  and walkNames :: "'s WalkFunc \<Rightarrow> string \<Rightarrow> (string \<times> node) list \<Rightarrow> 's \<Rightarrow> 's \<times> error option"
where
  "walk walkFn path name (File n) s = walkFn path (Some (name, File n)) None s"
| "walk walkFn path name (Gone e) s = walkFn path None (Some e) s"
| "walk walkFn path name (Dir es) s =
     (case walkFn path (Some (name, Dir es)) None s of
        (s1, Some err1) \<Rightarrow> (s1, Some err1)
      | (s1, None) \<Rightarrow> walkNames walkFn path es s1)"
| "walk walkFn path name (BadDir e) s = walkFn path (Some (name, BadDir e)) (Some e) s"
| "walkNames walkFn path [] s = (s, None)"
| "walkNames walkFn path ((name, d) # es) s =
     (case walk walkFn (Join [path, name]) name d s of
        (s1, Some err) \<Rightarrow> (s1, Some err)
      | (s1, None) \<Rightarrow> walkNames walkFn path es s1)"

text \<open>
  The name \<open>os.Lstat\<close> gives the \<open>FileInfo\<close> of the root: the path without its
  trailing slashes, from its last slash on.
\<close>

definition basename :: "string \<Rightarrow> string" where
  "basename name =
     (let r = dropWhile (\<lambda>c. c = CHR ''/'') (rev name) in
      if r = [] then take 1 name else rev (takeWhile (\<lambda>c. c \<noteq> CHR ''/'') r))"

definition Walk :: "filesys \<Rightarrow> string \<Rightarrow> 's WalkFunc \<Rightarrow> 's \<Rightarrow> 's \<times> error option" where
  "Walk fs root fn s =
     (case Lstat fs root of
        Inl err \<Rightarrow> fn root None (Some err) s
      | Inr info \<Rightarrow> walk fn root (basename root) info s)"

text \<open>
  Modelled from the spec: \<open>fileutil.Exists\<close> is not among the sources. It tells
  whether the path exists on disk; \<open>findFuzzTestExecutable\<close> drops its error.
\<close>

definition fileExists :: "filesys \<Rightarrow> string \<Rightarrow> bool" where
  "fileExists fs p = (case Stat fs p of Inl e \<Rightarrow> False | Inr n \<Rightarrow> True)"

text \<open>
  The closure of \<open>findFuzzTestExecutable\<close>; its state is the variable
  \<open>executable\<close>. It reads \<open>info.Name()\<close> without looking at \<open>err\<close>, which is a
  nil dereference where \<open>info\<close> is nil.
\<close>

definition findFn :: "string \<Rightarrow> string WalkFunc" where
  "findFn fuzzTest path info err executable =
     (case info of
        None \<Rightarrow> (executable, Some NilDeref)
      | Some (name, d) \<Rightarrow> if name = fuzzTest then (path, None) else (executable, None))"

text \<open>A Go call either returns its results or panics.\<close>

datatype 'a outcome = Returns 'a | Panics

definition findFuzzTestExecutable ::
    "filesys \<Rightarrow> string \<Rightarrow> string \<Rightarrow> (string \<times> error option) outcome" where
  "findFuzzTestExecutable fs buildDir fuzzTest =
     (if fileExists fs fuzzTest then Returns (fuzzTest, None)
      else
        (case Walk fs buildDir (findFn fuzzTest) [] of
           (executable, Some NilDeref) \<Rightarrow> Panics
         | (executable, Some err) \<Rightarrow> Returns ([], Some err)
         | (executable, None) \<Rightarrow>
             if executable = [] then
               Returns ([], Some (Errorf (''Could not find executable for fuzz test '' @ fuzzTest)))
             else Returns (executable, None)))"

subsection \<open>What a walk of the build directory visits\<close>

text \<open>
  The entries a walk hands to its callback with a \<open>FileInfo\<close>, as pairs of path and
  name in the order of the walk: files and directories, the root first. \<open>lstatFails\<close>
  tells whether the walk meets an entry without one.
\<close>

fun visited :: "string \<Rightarrow> string \<Rightarrow> node \<Rightarrow> (string \<times> string) list"
  and visitedIn :: "string \<Rightarrow> (string \<times> node) list \<Rightarrow> (string \<times> string) list"
where
  "visited path name (File n) = [(path, name)]"
| "visited path name (Gone e) = []"
| "visited path name (Dir es) = (path, name) # visitedIn path es"
| "visited path name (BadDir e) = [(path, name)]"
| "visitedIn path [] = []"
| "visitedIn path ((name, d) # es) = visited (Join [path, name]) name d @ visitedIn path es"

fun lstatFails :: "node \<Rightarrow> bool"
  and lstatFailsIn :: "(string \<times> node) list \<Rightarrow> bool"
where
  "lstatFails (File n) = False"
| "lstatFails (Gone e) = True"
| "lstatFails (Dir es) = lstatFailsIn es"
| "lstatFails (BadDir e) = False"
| "lstatFailsIn [] = False"
| "lstatFailsIn ((name, d) # es) = (lstatFails d \<or> lstatFailsIn es)"

definition visitedAt :: "filesys \<Rightarrow> string \<Rightarrow> (string \<times> string) list" where
  "visitedAt fs root =
     (case Lstat fs root of Inl e \<Rightarrow> [] | Inr d \<Rightarrow> visited root (basename root) d)"

definition lstatFailsAt :: "filesys \<Rightarrow> string \<Rightarrow> bool" where
  "lstatFailsAt fs root = (case Lstat fs root of Inl e \<Rightarrow> True | Inr d \<Rightarrow> lstatFails d)"

text \<open>The visited entries whose name is the fuzz test's.\<close>

definition matching :: "string \<Rightarrow> (string \<times> string) list \<Rightarrow> (string \<times> string) list" where
  "matching fuzzTest vs = filter (\<lambda>v. snd v = fuzzTest) vs"

text \<open>
  A build directory with the executable in two places, an empty directory for the
  corpora beside it, and a tool outside the project.
\<close>

definition buildFs :: filesys where
  "buildFs =
     [''/p/.cifuzz-build'' \<mapsto>
        Dir [(''CMakeFiles'', Dir [(''my_fuzz_test.dir'', Dir [(''main.o'', File 80)])]),
             (''my_fuzz_test'', File 4096),
             (''tests'', Dir [(''my_fuzz_test'', File 2048), (''other'', File 7)])],
      ''/p/.cifuzz-corpus'' \<mapsto> Dir [],
      ''/bin/tool'' \<mapsto> File 100]"

text \<open>
  The same build directory while the build still removes a temporary file: the name
  \<open>tmp.o\<close> is listed, and \<open>Lstat\<close> of it fails.
\<close>

definition goneFs :: filesys where
  "goneFs =
     [''/p/.cifuzz-build'' \<mapsto>
        Dir [(''my_fuzz_test'', File 4096),
             (''tmp.o'', Gone (PathError ''lstat'' ''/p/.cifuzz-build/tmp.o''))]]"

text \<open>The closure keeps in \<open>executable\<close> the path of the last entry of the name.\<close>

definition pick :: "string \<Rightarrow> string \<Rightarrow> string \<times> string \<Rightarrow> string" where
  "pick fuzzTest executable v = (if snd v = fuzzTest then fst v else executable)"

section \<open>The run command\<close>

text \<open>
  \<open>runOptions\<close> and \<open>runCmd\<close> of package \<open>run\<close>, and the options it hands to the
  libFuzzer runner. Of \<open>config.Config\<close> the command reads \<open>ProjectDir\<close>; the report
  handler is the one \<open>run\<close> creates and is not a field here.
\<close>

record runOptions =
  buildCommand :: string
  fuzzTest :: string
  seedsDirs :: "string list"
  dictionary :: string
  engineArgs :: "string list"
  fuzzTargetArgs :: "string list"
  timeout :: int
  useSandbox :: bool
  printJSON :: bool

text \<open>
  \<open>validate\<close>: every seed directory, and the dictionary when one is given, must
  answer \<open>os.Stat\<close>; the first that does not gives \<open>ErrSilent\<close> (the error itself is
  only logged).
\<close>

fun validateSeedsDirs :: "filesys \<Rightarrow> string list \<Rightarrow> error option" where
  "validateSeedsDirs fs [] = None"
| "validateSeedsDirs fs (d # ds) =
     (case Stat fs d of
        Inl err \<Rightarrow> Some ErrSilent
      | Inr info \<Rightarrow> validateSeedsDirs fs ds)"

definition validate :: "filesys \<Rightarrow> runOptions \<Rightarrow> error option" where
  "validate fs opts =
     (case validateSeedsDirs fs (seedsDirs opts) of
        Some err \<Rightarrow> Some err
      | None \<Rightarrow>
          if dictionary opts \<noteq> [] then
            (case Stat fs (dictionary opts) of
               Inl err \<Rightarrow> Some ErrSilent
             | Inr info \<Rightarrow> None)
          else None)"

record runCmd =
  opts :: runOptions
  ProjectDir :: string
  buildDir :: string

record RunnerOptions =
  FuzzTarget :: string
  SeedsDir :: string
  AdditionalSeedsDirs :: "string list"
  Dictionary :: string
  EngineArgs :: "string list"
  FuzzTargetArgs :: "string list"
  Timeout :: int
  UseMinijail :: bool
  Verbose :: bool
  KeepColor :: bool

text \<open>
  \<open>os.MkdirAll\<close> on the file system of the model. As in Go, a path that answers
  \<open>Stat\<close> is fine when it is a directory and an error when it is not; otherwise the
  parent is made first, in the same way, and then the directory itself. \<open>dirPrefixes\<close>
  gives the ancestors of a path, the nearest to the root first (the root itself is not
  among them); \<open>mkdirAllFrom\<close> takes the path with its ancestors, the path first. The
  model records every directory made under its own path and leaves the trees recorded
  for the ancestors as they are.
\<close>

fun dirPrefixes :: "string \<Rightarrow> string \<Rightarrow> string list" where
  "dirPrefixes pre [] = []"
| "dirPrefixes pre (c # cs) =
     (if c = CHR ''/'' \<and> pre \<noteq> [] then rev pre # dirPrefixes (c # pre) cs
      else dirPrefixes (c # pre) cs)"

definition Mkdir :: "filesys \<Rightarrow> string \<Rightarrow> error option \<times> filesys" where
  "Mkdir fs p =
     (if p = [] then (Some (PathError ''mkdir'' p), fs)
      else (case fs p of
              None \<Rightarrow> (None, fs(p \<mapsto> Dir []))
            | Some (Gone e) \<Rightarrow> (Some e, fs)
            | Some d \<Rightarrow> if IsDir d then (None, fs) else (Some (PathError ''mkdir'' p), fs)))"

fun mkdirAllFrom :: "filesys \<Rightarrow> string list \<Rightarrow> error option \<times> filesys" where
  "mkdirAllFrom fs [] = (None, fs)"
| "mkdirAllFrom fs (p # parents) =
     (case Stat fs p of
        Inr dir \<Rightarrow> if IsDir dir then (None, fs) else (Some (PathError ''mkdir'' p), fs)
      | Inl e \<Rightarrow>
         (case mkdirAllFrom fs parents of
            (Some err, fs1) \<Rightarrow> (Some err, fs1)
          | (None, fs1) \<Rightarrow> Mkdir fs1 p))"

definition MkdirAll :: "filesys \<Rightarrow> string \<Rightarrow> error option \<times> filesys" where
  "MkdirAll fs p = mkdirAllFrom fs (p # rev (dirPrefixes [] p))"

text \<open>
  What the run command gets from the parts of the program that are outside it: the
  build (its error, the build directory it leaves in \<open>c.buildDir\<close> and the file system
  after it), \<open>NewReportHandler\<close>, the flag \<open>verbose\<close>, the fuzzing itself (what
  \<open>routines.Wait()\<close> returns, that is the first error of the signal handler and of
  \<open>runner.Run\<close>, and the file system the fuzzer leaves) and what
  \<open>PrintFinalMetrics\<close> returns.
\<close>

record runEnv =
  buildFuzzTest :: "runCmd \<Rightarrow> filesys \<Rightarrow> error option \<times> string \<times> filesys"
  NewReportHandler :: "error option"
  verbose :: bool
  routinesWait :: "RunnerOptions \<Rightarrow> filesys \<Rightarrow> error option \<times> filesys"
  PrintFinalMetrics :: "uint \<Rightarrow> error option"

text \<open>
  What a run does, in order, as far as the properties below need it. \<open>EvRunnerRun\<close> is
  the start of the two goroutines, the signal handler and \<open>runner.Run\<close>, with the runner
  made from the options; \<open>EvWaitReturned\<close> is the return of \<open>routines.Wait()\<close>, which
  an errgroup gives only when every function started with \<open>Go\<close> has returned, so
  \<open>runner.Run\<close> has returned by then.
\<close>

datatype event =
    EvBuildFuzzTest
  | EvNewReportHandler
  | EvMkdirAll string
  | EvRunnerRun RunnerOptions
  | EvWaitReturned "error option"
  | EvPrintFinalMetrics uint

text \<open>The default corpus directory of a fuzz test.\<close>

definition defaultCorpusDir :: "runCmd \<Rightarrow> string" where
  "defaultCorpusDir c = Join [ProjectDir c, ''.cifuzz-corpus'', fuzzTest (opts c)]"

text \<open>
  The block of \<open>runFuzzTest\<close> that runs when no seed directory was given: it creates
  the default corpus directory and makes it the only seed directory.
\<close>

definition useDefaultCorpusDir :: "runCmd \<Rightarrow> filesys \<Rightarrow> error option \<times> runCmd \<times> filesys \<times> event list" where
  "useDefaultCorpusDir c fs =
     (if length (seedsDirs (opts c)) = 0 then
        (case MkdirAll fs (defaultCorpusDir c) of
           (Some err, fs1) \<Rightarrow> (Some (WithStack err), c, fs1, [EvMkdirAll (defaultCorpusDir c)])
         | (None, fs1) \<Rightarrow>
             (None, c\<lparr>opts := (opts c)\<lparr>seedsDirs := [defaultCorpusDir c]\<rparr>\<rparr>, fs1,
              [EvMkdirAll (defaultCorpusDir c)]))
      else (None, c, fs, []))"

text \<open>
  The options of the runner. \<open>seedsDirs[0]\<close> and \<open>seedsDirs[1:]\<close> panic on an empty
  slice.
\<close>

definition runnerOpts :: "runEnv \<Rightarrow> runCmd \<Rightarrow> string \<Rightarrow> RunnerOptions outcome" where
  "runnerOpts env c fuzzTestExecutable =
     (case seedsDirs (opts c) of
        [] \<Rightarrow> Panics
      | d # ds \<Rightarrow>
          Returns \<lparr>FuzzTarget = fuzzTestExecutable,
                   SeedsDir = d,
                   AdditionalSeedsDirs = ds,
                   Dictionary = dictionary (opts c),
                   EngineArgs = engineArgs (opts c),
                   FuzzTargetArgs = fuzzTargetArgs (opts c),
                   Timeout = timeout (opts c),
                   UseMinijail = useSandbox (opts c),
                   Verbose = verbose env,
                   KeepColor = (\<not> printJSON (opts c))\<rparr>)"

text \<open>
  \<open>runFuzzTest\<close>. The result is the error, the command (its \<open>opts.seedsDirs\<close> may
  have changed), the file system and the events.
\<close>

definition runFuzzTest ::
    "runEnv \<Rightarrow> runCmd \<Rightarrow> filesys \<Rightarrow> (error option \<times> runCmd \<times> filesys \<times> event list) outcome" where
  "runFuzzTest env c fs =
     (case findFuzzTestExecutable fs (buildDir c) (fuzzTest (opts c)) of
        Panics \<Rightarrow> Panics
      | Returns (fuzzTestExecutable, Some err) \<Rightarrow> Returns (Some err, c, fs, [])
      | Returns (fuzzTestExecutable, None) \<Rightarrow>
         (case useDefaultCorpusDir c fs of
            (Some err, c1, fs1, evs) \<Rightarrow> Returns (Some err, c1, fs1, evs)
          | (None, c1, fs1, evs) \<Rightarrow>
             (case runnerOpts env c1 fuzzTestExecutable of
                Panics \<Rightarrow> Panics
              | Returns ro \<Rightarrow>
                 (case routinesWait env ro fs1 of
                    (err, fs2) \<Rightarrow>
                      Returns (err, c1, fs2, evs @ [EvRunnerRun ro, EvWaitReturned err])))))"

definition printFinalMetrics :: "runEnv \<Rightarrow> runCmd \<Rightarrow> filesys \<Rightarrow> error option \<times> event list" where
  "printFinalMetrics env c fs =
     (case countSeeds fs (seedsDirs (opts c)) of
        (numSeeds, Some err) \<Rightarrow> (Some err, [])
      | (numSeeds, None) \<Rightarrow> (PrintFinalMetrics env numSeeds, [EvPrintFinalMetrics numSeeds]))"

text \<open>\<open>run\<close>: build, create the report handler, fuzz, print the final metrics.\<close>

definition run ::
    "runEnv \<Rightarrow> runCmd \<Rightarrow> filesys \<Rightarrow> (error option \<times> runCmd \<times> filesys \<times> event list) outcome" where
  "run env c fs =
     (case buildFuzzTest env c fs of
        (Some err, bd, fs1) \<Rightarrow> Returns (Some err, c\<lparr>buildDir := bd\<rparr>, fs1, [EvBuildFuzzTest])
      | (None, bd, fs1) \<Rightarrow>
         (case NewReportHandler env of
            Some err \<Rightarrow>
              Returns (Some err, c\<lparr>buildDir := bd\<rparr>, fs1, [EvBuildFuzzTest, EvNewReportHandler])
          | None \<Rightarrow>
             (case runFuzzTest env (c\<lparr>buildDir := bd\<rparr>) fs1 of
                Panics \<Rightarrow> Panics
              | Returns (Some err, c2, fs2, evs) \<Rightarrow>
                  Returns (Some err, c2, fs2, [EvBuildFuzzTest, EvNewReportHandler] @ evs)
              | Returns (None, c2, fs2, evs) \<Rightarrow>
                 (case printFinalMetrics env c2 fs2 of
                    (err, evs2) \<Rightarrow>
                      Returns (err, c2, fs2, [EvBuildFuzzTest, EvNewReportHandler] @ evs @ evs2)))))"

text \<open>
  The command as cobra runs it: \<open>PreRunE\<close> stores the argument in \<open>opts.fuzzTest\<close>
  and validates the options, and \<open>RunE\<close> runs only when \<open>PreRunE\<close> returned nil.
\<close>

definition runCommand ::
    "runEnv \<Rightarrow> runCmd \<Rightarrow> string \<Rightarrow> filesys \<Rightarrow> (error option \<times> runCmd \<times> filesys \<times> event list) outcome" where
  "runCommand env c arg fs =
     (let c0 = c\<lparr>opts := (opts c)\<lparr>fuzzTest := arg\<rparr>\<rparr> in
      case validate fs (opts c0) of
        Some err \<Rightarrow> Returns (Some err, c0, fs, [])
      | None \<Rightarrow> run env c0 fs)"

text \<open>The number of calls of \<open>PrintFinalMetrics\<close> among the events.\<close>

fun isPrintFinalMetrics :: "event \<Rightarrow> bool" where
  "isPrintFinalMetrics (EvPrintFinalMetrics n) = True"
| "isPrintFinalMetrics ev = False"

definition finalMetricsCalls :: "event list \<Rightarrow> nat" where
  "finalMetricsCalls evs = length (filter isPrintFinalMetrics evs)"

text \<open>The events of a run that returned; a run that panicked has none to show.\<close>

fun eventsOf :: "(error option \<times> runCmd \<times> filesys \<times> event list) outcome \<Rightarrow> event list" where
  "eventsOf (Returns (err, c, fs, evs)) = evs"
| "eventsOf Panics = []"

fun errorOf :: "(error option \<times> runCmd \<times> filesys \<times> event list) outcome \<Rightarrow> error option" where
  "errorOf (Returns (err, c, fs, evs)) = err"
| "errorOf Panics = Some NilDeref"

text \<open>
  Runs to look at: a project \<open>/p\<close> built into \<open>buildFs\<close>, fuzzed without a seed
  directory, once to the end and once until an interrupt; and the same with a seed
  directory that does not exist.
\<close>

definition cmd0 :: runCmd where
  "cmd0 =
     \<lparr>opts = \<lparr>buildCommand = [], fuzzTest = ''my_fuzz_test'', seedsDirs = [], dictionary = [],
              engineArgs = [], fuzzTargetArgs = [], timeout = 0, useSandbox = True,
              printJSON = False\<rparr>,
      ProjectDir = ''/p'', buildDir = []\<rparr>"

definition cmdMissing :: runCmd where
  "cmdMissing = cmd0\<lparr>opts := (opts cmd0)\<lparr>seedsDirs := [''/missing'']\<rparr>\<rparr>"

definition envDone :: runEnv where
  "envDone =
     \<lparr>buildFuzzTest = (\<lambda>c fs. (None, ''/p/.cifuzz-build'', fs)),
      NewReportHandler = None,
      verbose = False,
      routinesWait = (\<lambda>ro fs. (None, fs(SeedsDir ro \<mapsto> Dir [(''0a1b'', File 3), (''7c9d'', File 5)]))),
      PrintFinalMetrics = (\<lambda>n. None)\<rparr>"

definition envInterrupted :: runEnv where
  "envInterrupted =
     envDone\<lparr>routinesWait := (\<lambda>ro fs. (Some (SilentError (SignalError ''interrupt'')), fs))\<rparr>"

text \<open>
  Runs that end with an error before the fuzzing or after it: the build fails, the
  report handler cannot be made, no executable of the name is in the build directory,
  and the corpus directory is gone when the fuzzing has ended.
\<close>

definition envBuildFails :: runEnv where
  "envBuildFails =
     envDone\<lparr>buildFuzzTest := (\<lambda>c fs. (Some (Errorf ''build failed''), ''/p/.cifuzz-build'', fs))\<rparr>"

definition envHandlerFails :: runEnv where
  "envHandlerFails = envDone\<lparr>NewReportHandler := Some (Errorf ''no report handler'')\<rparr>"

definition cmdNothing :: runCmd where
  "cmdNothing = cmd0\<lparr>opts := (opts cmd0)\<lparr>fuzzTest := ''nothing''\<rparr>\<rparr>"

definition envCorpusRemoved :: runEnv where
  "envCorpusRemoved = envDone\<lparr>routinesWait := (\<lambda>ro fs. (None, fs(SeedsDir ro := None)))\<rparr>"

text \<open>The runner options, the command, the file system and the events of the finished run.\<close>

definition doneRunnerOpts :: RunnerOptions where
  "doneRunnerOpts =
     \<lparr>FuzzTarget = ''/p/.cifuzz-build/tests/my_fuzz_test'',
      SeedsDir = ''/p/.cifuzz-corpus/my_fuzz_test'',
      AdditionalSeedsDirs = [], Dictionary = [], EngineArgs = [], FuzzTargetArgs = [],
      Timeout = 0, UseMinijail = True, Verbose = False, KeepColor = True\<rparr>"

definition doneCmd :: runCmd where
  "doneCmd =
     cmd0\<lparr>opts := (opts cmd0)\<lparr>seedsDirs := [''/p/.cifuzz-corpus/my_fuzz_test'']\<rparr>,
          buildDir := ''/p/.cifuzz-build''\<rparr>"

definition doneFs :: filesys where
  "doneFs = buildFs(''/p/.cifuzz-corpus/my_fuzz_test'' \<mapsto> Dir [(''0a1b'', File 3), (''7c9d'', File 5)])"

definition doneEvents :: "event list" where
  "doneEvents =
     [EvBuildFuzzTest, EvNewReportHandler, EvMkdirAll ''/p/.cifuzz-corpus/my_fuzz_test'',
      EvRunnerRun doneRunnerOpts, EvWaitReturned None, EvPrintFinalMetrics 2]"

text \<open>The project with the two seed directories of \<open>seedsFs\<close>, given on the command line.\<close>

definition projFs :: filesys where
  "projFs = buildFs ++ seedsFs"

definition cmdSeeds :: runCmd where
  "cmdSeeds =
     cmd0\<lparr>opts := (opts cmd0)\<lparr>seedsDirs := [''/seeds/a'', ''/seeds/b'']\<rparr>,
          buildDir := ''/p/.cifuzz-build''\<rparr>"

definition seedsRunnerOpts :: RunnerOptions where
  "seedsRunnerOpts =
     doneRunnerOpts\<lparr>SeedsDir := ''/seeds/a'', AdditionalSeedsDirs := [''/seeds/b'']\<rparr>"

section \<open>The coverage command\<close>

text \<open>
  \<open>coverageOptions\<close> of package \<open>coverage\<close> (its fields \<open>ProjectDir\<close> and
  \<open>fuzzTest\<close> carry a prime here, the names being taken by the run command), the
  fields of \<open>build.Result\<close> the command reads, and \<open>minijail.Binding\<close> and
  \<open>minijail.Options\<close> with the fields the command sets.
\<close>

record coverageOptions =
  BuildSystem :: string
  BuildCommand :: string
  SeedCorpusDirs :: "string list"
  FuzzTestArgs :: "string list"
  UseSandbox :: bool
  ProjectDir' :: string
  fuzzTest' :: string

record buildResult =
  Executable :: string
  SeedCorpus :: string
  RuntimeDeps :: "string list"

record Binding =
  Source :: string

record minijailOptions =
  Args :: "string list"
  Bindings :: "Binding list"
  Env :: "string list"

text \<open>
  What the command calls outside itself: \<open>fileutil.Exists\<close>,
  \<open>cmdutils.GeneratedCorpusDir\<close>, \<open>filepath.EvalSymlinks\<close>, \<open>envutil.Setenv\<close>
  and \<open>envutil.ToMap\<close>, \<open>os.Environ\<close>, \<open>minijail.NewMinijail\<close> (by the
  \<open>Args\<close> of the jail it makes) and the run of the command (by its error).
\<close>

record coverageEnv =
  fileutilExists :: "string \<Rightarrow> bool \<times> error option"
  GeneratedCorpusDir :: "string \<Rightarrow> string \<Rightarrow> string"
  EvalSymlinks :: "string \<Rightarrow> string \<times> error option"
  Setenv :: "string list \<Rightarrow> string \<Rightarrow> string \<Rightarrow> string list \<times> error option"
  ToMap :: "string list \<Rightarrow> (string \<times> string) list"
  Environ :: "string list"
  NewMinijail :: "minijailOptions \<Rightarrow> string list \<times> error option"
  cmdRun :: "string list \<Rightarrow> string list \<Rightarrow> error option"

datatype coverageEvent =
    EvNewMinijail minijailOptions
  | EvExec "string list" "string list"
  | EvMinijailCleanup

text \<open>
  The first block of \<open>runFuzzTest\<close>: the seed corpus directories of the user, the
  default seed corpus of the build if it exists, the generated corpus if it exists.
\<close>

definition gatherCorpusDirs :: "coverageEnv \<Rightarrow> coverageOptions \<Rightarrow> buildResult \<Rightarrow> string list \<times> error option" where
  "gatherCorpusDirs env opt br =
     (case fileutilExists env (SeedCorpus br) of
        (ex, Some err) \<Rightarrow> ([], Some err)
      | (ex, None) \<Rightarrow>
         (let corpusDirs = SeedCorpusDirs opt @ (if ex then [SeedCorpus br] else []);
              generatedCorpusDir = GeneratedCorpusDir env (ProjectDir' opt) (fuzzTest' opt)
          in (case fileutilExists env generatedCorpusDir of
                (ex2, Some err) \<Rightarrow> ([], Some err)
              | (ex2, None) \<Rightarrow>
                  (corpusDirs @ (if ex2 then [generatedCorpusDir] else []), None))))"

text \<open>
  The loop that replaces every corpus directory by what \<open>EvalSymlinks\<close> gives for
  it, and stops at the first error.
\<close>

fun resolveCorpusDirs :: "coverageEnv \<Rightarrow> string list \<Rightarrow> string list \<times> error option" where
  "resolveCorpusDirs env [] = ([], None)"
| "resolveCorpusDirs env (dir # dirs) =
     (case EvalSymlinks env dir of
        (p, Some err) \<Rightarrow> ([], Some (WithStack err))
      | (p, None) \<Rightarrow>
         (case resolveCorpusDirs env dirs of
            (ps, Some err) \<Rightarrow> ([], Some err)
          | (ps, None) \<Rightarrow> (p # ps, None)))"

text \<open>The loop that merges the environment of the binary into the wrapper's.\<close>

fun mergeEnv :: "coverageEnv \<Rightarrow> string list \<Rightarrow> (string \<times> string) list \<Rightarrow> string list \<times> error option" where
  "mergeEnv env wrapperEnv [] = (wrapperEnv, None)"
| "mergeEnv env wrapperEnv ((key, val) # kvs) =
     (case Setenv env wrapperEnv key val of
        (w, Some err) \<Rightarrow> (w, Some err)
      | (w, None) \<Rightarrow> mergeEnv env w kvs)"

definition rawProfilePattern :: "string \<Rightarrow> string" where
  "rawProfilePattern tmpDir = Join [tmpDir, ''%m.profraw'']"

text \<open>
  The end of \<open>runFuzzTest\<close>: \<open>exec.Command(args[0], args[1:]...)\<close>, which panics on
  an empty \<open>args\<close>, and its run; a failed run is logged and gives \<open>ErrSilent\<close>.
\<close>

definition execCommand ::
    "coverageEnv \<Rightarrow> string list \<Rightarrow> string list \<Rightarrow> (error option \<times> coverageEvent list) outcome" where
  "execCommand env args wrapperEnv =
     (case args of
        [] \<Rightarrow> Panics
      | a # as \<Rightarrow>
         (case cmdRun env args wrapperEnv of
            Some err \<Rightarrow> Returns (Some ErrSilent, [EvExec args wrapperEnv])
          | None \<Rightarrow> Returns (None, [EvExec args wrapperEnv])))"

text \<open>The deferred \<open>mj.Cleanup()\<close> runs when the function returns.\<close>

fun withCleanup ::
    "coverageEvent list \<Rightarrow> (error option \<times> coverageEvent list) outcome
       \<Rightarrow> (error option \<times> coverageEvent list) outcome" where
  "withCleanup pre (Returns (err, evs)) = Returns (err, pre @ evs @ [EvMinijailCleanup])"
| "withCleanup pre Panics = Panics"

text \<open>\<open>runFuzzTest\<close> of the coverage command.\<close>

definition coverageRunFuzzTest ::
    "coverageEnv \<Rightarrow> coverageOptions \<Rightarrow> string \<Rightarrow> buildResult
       \<Rightarrow> (error option \<times> coverageEvent list) outcome" where
  "coverageRunFuzzTest env opt tmpDir br =
     (case gatherCorpusDirs env opt br of
        (ds, Some err) \<Rightarrow> Returns (Some err, [])
      | (ds, None) \<Rightarrow>
         (case resolveCorpusDirs env ds of
            (ps, Some err) \<Rightarrow> Returns (Some err, [])
          | (corpusDirs, None) \<Rightarrow>
             (case Setenv env [] ''LLVM_PROFILE_FILE'' (rawProfilePattern tmpDir) of
                (b, Some err) \<Rightarrow> Returns (Some err, [])
              | (binaryEnv, None) \<Rightarrow>
                 (let wrapperEnv = Environ env;
                      args0 = [Executable br] @ corpusDirs;
                      args = (if length (FuzzTestArgs opt) > 0
                              then (args0 @ [''--'']) @ FuzzTestArgs opt else args0)
                  in if UseSandbox opt then
                       (let bindings = \<lparr>Source = Executable br\<rparr>
                                        # map (\<lambda>dir. \<lparr>Source = dir\<rparr>) corpusDirs;
                            mo = \<lparr>Args = args, Bindings = bindings, Env = binaryEnv\<rparr>
                        in (case NewMinijail env mo of
                              (mjArgs, Some err) \<Rightarrow> Returns (Some err, [EvNewMinijail mo])
                            | (mjArgs, None) \<Rightarrow>
                                withCleanup [EvNewMinijail mo] (execCommand env mjArgs wrapperEnv)))
                     else
                       (case mergeEnv env wrapperEnv (ToMap env binaryEnv) of
                          (w, Some err) \<Rightarrow> Returns (Some err, [])
                        | (w, None) \<Rightarrow> execCommand env args w)))))"

text \<open>The events of a call of \<open>runFuzzTest\<close> that returned.\<close>

fun coverageEvents :: "(error option \<times> coverageEvent list) outcome \<Rightarrow> coverageEvent list" where
  "coverageEvents (Returns (err, evs)) = evs"
| "coverageEvents Panics = []"

text \<open>
  A project whose fuzz test executable is reached through a symbolic link
  \<open>/p/build\<close>, with one corpus directory, itself a link; and the same with a corpus
  directory that does not exist.
\<close>

definition covEnv0 :: coverageEnv where
  "covEnv0 =
     \<lparr>fileutilExists = (\<lambda>p. (False, None)),
      GeneratedCorpusDir = (\<lambda>projectDir test. Join [projectDir, ''.cifuzz-corpus'', test]),
      EvalSymlinks = (\<lambda>p. if p = ''/p/build/fuzz'' then (''/p/.cifuzz-build/fuzz'', None)
                           else if p = ''/p/corpus'' then (''/data/corpus'', None)
                           else if p = ''/p/.cifuzz-build/fuzz'' \<or> p = ''/data/corpus'' then (p, None)
                           else ([], Some (PathError ''lstat'' p))),
      Setenv = (\<lambda>env key val. ((key @ ''='' @ val) # env, None)),
      ToMap = (\<lambda>env. []),
      Environ = [''PATH=/usr/bin''],
      NewMinijail = (\<lambda>mo. (''minijail0'' # ''--'' # Args mo, None)),
      cmdRun = (\<lambda>args env. None)\<rparr>"

definition covOpts0 :: coverageOptions where
  "covOpts0 =
     \<lparr>BuildSystem = ''cmake'', BuildCommand = [], SeedCorpusDirs = [''/p/corpus''],
      FuzzTestArgs = [], UseSandbox = True, ProjectDir' = ''/p'', fuzzTest' = ''fuzz''\<rparr>"

definition buildResult0 :: buildResult where
  "buildResult0 =
     \<lparr>Executable = ''/p/build/fuzz'', SeedCorpus = ''/p/fuzz_seed_corpus'', RuntimeDeps = []\<rparr>"

definition covOptsMissing :: coverageOptions where
  "covOptsMissing = covOpts0\<lparr>SeedCorpusDirs := [''/p/corpus'', ''/p/nope'']\<rparr>"

definition minijailOptions0 :: minijailOptions where
  "minijailOptions0 =
     \<lparr>Args = [''/p/build/fuzz'', ''/data/corpus''],
      Bindings = [\<lparr>Source = ''/p/build/fuzz''\<rparr>, \<lparr>Source = ''/data/corpus''\<rparr>],
      Env = [''LLVM_PROFILE_FILE=/tmp/coverage-1/%m.profraw'']\<rparr>"

section \<open>The report aggregator\<close>

text \<open>
  Modelled from the spec: the report handler (package \<open>report_handler\<close>) and the
  parser of the fuzzer's output are not among the sources; only the calls
  \<open>NewReportHandler\<close> and \<open>PrintFinalMetrics\<close> are. A finding has a kind, a detail
  text, an optional source location, an optional path of the triggering input and a
  flag for the input data. Its identity is its kind with a normalised form of its detail
  text; the normalisation is a policy the specification leaves open, so it is a
  parameter.
\<close>

datatype findingKind = KCrash | KTimeout | KOutOfMemory | KSanitizerError | KLeak

record Finding =
  kind :: findingKind
  detail :: string
  location :: "string option"
  inputPath :: "string option"
  inputAvailable :: bool

type_synonym identity = "findingKind \<times> string"

definition identity :: "(string \<Rightarrow> string) \<Rightarrow> Finding \<Rightarrow> identity" where
  "identity norm f = (kind f, norm (detail f))"

text \<open>
  Modelled from the spec: the aggregator of one run holds the identities seen, the
  findings it has emitted (the externally visible ones, in order), the count of
  findings and the raw-occurrence counter.
\<close>

record Aggregator =
  seen :: "identity list"
  emitted :: "Finding list"
  findingCount :: nat
  rawOccurrences :: nat

definition newAggregator :: Aggregator where
  "newAggregator = \<lparr>seen = [], emitted = [], findingCount = 0, rawOccurrences = 0\<rparr>"

text \<open>
  Modelled from the spec: \<open>AddFinding\<close> computes the identity first; a finding whose
  identity was seen in this run is suppressed and only increments the raw-occurrence
  counter, any other is emitted, counted and remembered.
\<close>

definition AddFinding :: "(string \<Rightarrow> string) \<Rightarrow> Aggregator \<Rightarrow> Finding \<Rightarrow> Aggregator" where
  "AddFinding norm agg f =
     (let i = identity norm f in
      if i \<in> set (seen agg) then agg\<lparr>rawOccurrences := rawOccurrences agg + 1\<rparr>
      else agg\<lparr>seen := i # seen agg,
               emitted := emitted agg @ [f],
               findingCount := findingCount agg + 1,
               rawOccurrences := rawOccurrences agg + 1\<rparr>)"

text \<open>The findings of an output stream, added in the order they were recognised.\<close>

definition addAll :: "(string \<Rightarrow> string) \<Rightarrow> Finding list \<Rightarrow> Aggregator" where
  "addAll norm fs = foldl (AddFinding norm) newAggregator fs"

text \<open>
  A normalisation that drops the digits of a detail text, and the same overflow
  reported three times at different addresses.
\<close>

definition dropDigits :: "string \<Rightarrow> string" where
  "dropDigits s = filter (\<lambda>c. c \<notin> set ''0123456789'') s"

definition overflowAt :: "string \<Rightarrow> Finding" where
  "overflowAt addr =
     \<lparr>kind = KCrash, detail = ''heap-buffer-overflow on address '' @ addr,
      location = Some ''parser.cpp'', inputPath = None, inputAvailable = False\<rparr>"

text \<open>
  A fuzz test given by the path of its executable, built beside the project and named
  from the project directory \<open>/p\<close>, where the command runs; no build directory is
  set, as with a build system that is not known.
\<close>

definition pathFs :: filesys where
  "pathFs =
     [''/p'' \<mapsto> Dir [(''src'', Dir [(''fuzz.cpp'', File 900)])],
      ''../build/my_fuzz_test'' \<mapsto> File 4096]"

definition cmdPath :: runCmd where
  "cmdPath = cmd0\<lparr>opts := (opts cmd0)\<lparr>fuzzTest := ''../build/my_fuzz_test''\<rparr>\<rparr>"

definition pathRunnerOpts :: RunnerOptions where
  "pathRunnerOpts =
     doneRunnerOpts\<lparr>FuzzTarget := ''../build/my_fuzz_test'',
                    SeedsDir := ''/p/build/my_fuzz_test''\<rparr>"

section \<open>Properties of countSeeds\<close>

lemma walkDir_countSeedsFn:
  "snd (walkDir countSeedsFn path d s) = walkFailure d \<and>
   (walkFailure d = None \<longrightarrow>
      fst (walkDir countSeedsFn path d s) = s + of_nat (nonEmptyFiles d))"
  "snd (walkDirEntries countSeedsFn path es s) = walkFailureIn es \<and>
   (walkFailureIn es = None \<longrightarrow>
      fst (walkDirEntries countSeedsFn path es s) = s + of_nat (nonEmptyFilesIn es))"
proof (induction countSeedsFn path d s and countSeedsFn path es s
       rule: walkDir_walkDirEntries.induct)
  case (1 path n s)
  show ?case by (simp add: countSeedsFn_def)
next
  case (2 path e s)
  show ?case by (simp add: countSeedsFn_def)
next
  case (3 path es s)
  have c: "countSeedsFn path (Some (Dir es)) None s = (s, None)"
    by (simp add: countSeedsFn_def)
  from 3[OF c [symmetric] refl] show ?case by (simp add: c)
next
  case (4 path e s)
  show ?case by (simp add: countSeedsFn_def)
next
  case (5 path s)
  show ?case by simp
next
  case (6 path name d1 ds s)
  obtain s1 r where w: "walkDir countSeedsFn (Join [path, name]) d1 s = (s1, r)"
    by (cases "walkDir countSeedsFn (Join [path, name]) d1 s")
  from 6(1) w have r: "r = walkFailure d1"
    and s1: "walkFailure d1 = None \<longrightarrow> s1 = s + of_nat (nonEmptyFiles d1)"
    by simp_all
  show ?case
  proof (cases r)
    case (Some e)
    with r have "walkFailure d1 = Some e" by simp
    with w Some show ?thesis by simp
  next
    case None
    with r have f: "walkFailure d1 = None" by simp
    with s1 have "s1 = s + of_nat (nonEmptyFiles d1)" by simp
    with 6(2)[OF w [symmetric]] w None f show ?thesis
      by (simp add: add.assoc)
  qed
qed

lemma WalkDir_countSeedsFn_ok:
  "failureAt fs dir = None \<Longrightarrow> WalkDir fs dir countSeedsFn s = (s + of_nat (seedsAt fs dir), None)"
  using walkDir_countSeedsFn(1)
  by (auto simp: failureAt_def seedsAt_def WalkDir_def prod_eq_iff split: sum.splits)

lemma WalkDir_countSeedsFn_fail:
  "failureAt fs dir = Some e \<Longrightarrow> snd (WalkDir fs dir countSeedsFn s) = Some e"
  using walkDir_countSeedsFn(1)
  by (auto simp: failureAt_def WalkDir_def countSeedsFn_def split: sum.splits)

lemma countSeedsLoop_ok:
  "\<forall>dir \<in> set dirs. failureAt fs dir = None \<Longrightarrow>
   countSeedsLoop fs dirs acc = (acc + of_nat (sum_list (map (seedsAt fs) dirs)), None)"
  by (induction dirs arbitrary: acc) (simp_all add: WalkDir_countSeedsFn_ok add.assoc)

lemma countSeedsLoop_fail:
  "\<forall>d \<in> set pre. failureAt fs d = None \<Longrightarrow> failureAt fs dir = Some e \<Longrightarrow>
   countSeedsLoop fs (pre @ dir # post) acc = (0, Some (WithStack e))"
proof (induction pre arbitrary: acc)
  case Nil
  obtain s1 r where w: "WalkDir fs dir countSeedsFn 0 = (s1, r)"
    by (cases "WalkDir fs dir countSeedsFn 0")
  with WalkDir_countSeedsFn_fail [OF Nil(2), of 0] have "r = Some e" by simp
  with w show ?case by simp
next
  case (Cons d pre)
  then show ?case by (simp add: WalkDir_countSeedsFn_ok)
qed

lemma nonEmptyFilesIn_append:
  "nonEmptyFilesIn (xs @ ys) = nonEmptyFilesIn xs + nonEmptyFilesIn ys"
  by (induction xs) auto

lemma failureAt_seedsFs:
  "failureAt seedsFs ''/seeds/a'' = None" "failureAt seedsFs ''/seeds/b'' = None"
  by (simp_all add: failureAt_def Lstat_def seedsFs_def)

lemma seedsAt_seedsFs:
  "seedsAt seedsFs ''/seeds/a'' = 3" "seedsAt seedsFs ''/seeds/b'' = 2"
  by (simp_all add: seedsAt_def Lstat_def seedsFs_def)

lemma length_nonEmptyPaths:
  "length (nonEmptyPaths path d) = nonEmptyFiles d"
  "length (nonEmptyPathsIn path es) = nonEmptyFilesIn es"
  by (induction path d and path es rule: nonEmptyPaths_nonEmptyPathsIn.induct) simp_all

lemma length_seedPathsAt: "length (seedPathsAt fs dir) = seedsAt fs dir"
  by (simp add: seedPathsAt_def seedsAt_def length_nonEmptyPaths split: sum.splits)

lemma length_concat_seedPathsAt:
  "length (concat (map (seedPathsAt fs) dirs)) = sum_list (map (seedsAt fs) dirs)"
  by (induction dirs) (simp_all add: length_seedPathsAt)

lemma nonEmptyFilesAcross_distinct:
  "distinct (concat (map (seedPathsAt fs) dirs)) \<Longrightarrow>
   nonEmptyFilesAcross fs dirs = sum_list (map (seedsAt fs) dirs)"
  by (simp add: nonEmptyFilesAcross_def distinct_remdups_id length_concat_seedPathsAt)

lemma seedPathsAt_seedsFs:
  "seedPathsAt seedsFs ''/seeds/a'' = [''/seeds/a/crash-1'', ''/seeds/a/seed-1'', ''/seeds/a/seed-2'']"
  "seedPathsAt seedsFs ''/seeds/b'' = [''/seeds/b/x'', ''/seeds/b/y'']"
  by (simp_all add: seedPathsAt_def Lstat_def seedsFs_def Join_def Clean_def)

text \<open>
  C4 (amended). A seed count is reported when \<open>countSeeds\<close> returns no error, that is
  when every seed directory can be walked. For seed directories of regular files and
  directories the count is then the sum, over the entries of the list, of the number of
  non-empty files below the entry (as a 64-bit \<open>uint\<close>; it is that number itself
  while it is below \<open>2 ^ 64\<close>); empty files are not counted. Where no file is reached
  through two entries of the list, this is the number of non-empty files across all the
  directories.
\<close>

theorem countSeeds_non_empty_files:
  assumes "\<forall>dir \<in> set seedDirs. failureAt fs dir = None"
  shows "countSeeds fs seedDirs = (of_nat (sum_list (map (seedsAt fs) seedDirs)), None)
     \<and> (sum_list (map (seedsAt fs) seedDirs) < 2 ^ 64 \<longrightarrow>
          unat (fst (countSeeds fs seedDirs)) = sum_list (map (seedsAt fs) seedDirs))
     \<and> (distinct (concat (map (seedPathsAt fs) seedDirs)) \<longrightarrow>
          countSeeds fs seedDirs = (of_nat (nonEmptyFilesAcross fs seedDirs), None))"
proof -
  have c: "countSeeds fs seedDirs = (of_nat (sum_list (map (seedsAt fs) seedDirs)), None)"
    using countSeedsLoop_ok [OF assms, of 0] by (simp add: countSeeds_def)
  have "sum_list (map (seedsAt fs) seedDirs) < 2 ^ 64 \<Longrightarrow>
      unat (of_nat (sum_list (map (seedsAt fs) seedDirs)) :: uint)
        = sum_list (map (seedsAt fs) seedDirs)"
    by (simp add: unat_of_nat take_bit_nat_eq_self)
  with c nonEmptyFilesAcross_distinct [of fs seedDirs] show ?thesis by simp
qed

text \<open>
  The scenario of the specification: \<open>/seeds/a\<close> with three non-empty files and one
  empty file, \<open>/seeds/b\<close> with two non-empty files; the count is 5, the number of
  non-empty files across the two directories.
\<close>

theorem countSeeds_non_empty_files_witness:
  "failureAt seedsFs ''/seeds/a'' = None \<and> failureAt seedsFs ''/seeds/b'' = None
   \<and> distinct (concat (map (seedPathsAt seedsFs) [''/seeds/a'', ''/seeds/b'']))
   \<and> nonEmptyFilesAcross seedsFs [''/seeds/a'', ''/seeds/b''] = 5
   \<and> countSeeds seedsFs [''/seeds/a'', ''/seeds/b''] = (5, None)
   \<and> unat (fst (countSeeds seedsFs [''/seeds/a'', ''/seeds/b''])) = 5"
proof -
  have h: "\<forall>dir \<in> set [''/seeds/a'', ''/seeds/b'']. failureAt seedsFs dir = None"
    by (simp add: failureAt_seedsFs)
  have d: "distinct (concat (map (seedPathsAt seedsFs) [''/seeds/a'', ''/seeds/b'']))"
    by (simp add: seedPathsAt_seedsFs)
  have n: "nonEmptyFilesAcross seedsFs [''/seeds/a'', ''/seeds/b''] = 5"
    by (simp add: nonEmptyFilesAcross_def seedPathsAt_seedsFs)
  from countSeeds_non_empty_files [OF h] d n show ?thesis
    by (simp add: seedsAt_seedsFs failureAt_seedsFs)
qed

text \<open>
  The claim as it was stated fails for a list that names a directory twice: the three
  non-empty files of \<open>/seeds/a\<close> are counted once for each entry of the list.
\<close>

theorem countSeeds_non_empty_files_counterexample:
  "countSeeds seedsFs [''/seeds/a'', ''/seeds/a''] = (6, None)
   \<and> nonEmptyFilesAcross seedsFs [''/seeds/a'', ''/seeds/a''] = 3"
proof -
  have h: "\<forall>dir \<in> set [''/seeds/a'', ''/seeds/a'']. failureAt seedsFs dir = None"
    by (simp add: failureAt_seedsFs)
  have c: "countSeeds seedsFs [''/seeds/a'', ''/seeds/a''] = (6, None)"
    using countSeedsLoop_ok [OF h, of 0] by (simp add: countSeeds_def seedsAt_seedsFs)
  have n: "nonEmptyFilesAcross seedsFs [''/seeds/a'', ''/seeds/a''] = 3"
    by (simp add: nonEmptyFilesAcross_def seedPathsAt_seedsFs)
  from c n show ?thesis by simp
qed

lemma failureAt_nestedFs:
  "failureAt nestedFs ''/corpus'' = None"
  "failureAt nestedFs ''/locked'' = Some (PathError ''open'' ''/locked/priv'')"
  by (simp_all add: failureAt_def Lstat_def nestedFs_def)

text \<open>
  C8. \<open>countSeeds\<close> walks each seed directory at every depth: the non-empty files of
  a nested directory \<open>sub\<close> are counted with those beside it. If the walk of a
  directory fails, the result is the count zero with the error of the walk (wrapped by
  \<open>WithStack\<close>), whatever the directories walked before it held.
\<close>

theorem countSeeds_recursive_and_failure:
  "(failureAt fs dir = None \<longrightarrow> fs dir = Some (Dir (es1 @ (name, Dir sub) # es2)) \<longrightarrow>
      countSeeds fs [dir] =
        (of_nat (nonEmptyFilesIn es1 + nonEmptyFilesIn sub + nonEmptyFilesIn es2), None))
   \<and> ((\<forall>d \<in> set pre. failureAt fs d = None) \<longrightarrow> failureAt fs bad = Some e \<longrightarrow>
      countSeeds fs (pre @ bad # post) = (0, Some (WithStack e)))"
proof (intro conjI impI)
  assume ok: "failureAt fs dir = None"
    and d: "fs dir = Some (Dir (es1 @ (name, Dir sub) # es2))"
  have ne: "dir \<noteq> []" using ok by (auto simp: failureAt_def Lstat_def)
  have "\<forall>x \<in> set [dir]. failureAt fs x = None" using ok by simp
  from countSeedsLoop_ok [OF this, of 0] d ne
  show "countSeeds fs [dir] =
        (of_nat (nonEmptyFilesIn es1 + nonEmptyFilesIn sub + nonEmptyFilesIn es2), None)"
    by (simp add: countSeeds_def seedsAt_def Lstat_def nonEmptyFilesIn_append)
next
  assume "\<forall>d \<in> set pre. failureAt fs d = None" and "failureAt fs bad = Some e"
  then show "countSeeds fs (pre @ bad # post) = (0, Some (WithStack e))"
    by (simp add: countSeeds_def countSeedsLoop_fail)
qed

text \<open>
  A run on \<open>nestedFs\<close>: the files \<open>b\<close> and \<open>c\<close> below \<open>/corpus/sub\<close> are
  counted, and walking \<open>/locked\<close> after \<open>/corpus\<close> gives zero and the error.
\<close>

theorem countSeeds_recursive_and_failure_witness:
  "failureAt nestedFs ''/corpus'' = None
   \<and> nestedFs ''/corpus'' =
        Some (Dir ([(''a'', File 5)]
                   @ (''sub'', Dir [(''b'', File 7), (''deep'', Dir [(''c'', File 1)])])
                   # [(''z'', File 0)]))
   \<and> countSeeds nestedFs [''/corpus''] = (3, None)
   \<and> failureAt nestedFs ''/locked'' = Some (PathError ''open'' ''/locked/priv'')
   \<and> countSeeds nestedFs ([''/corpus''] @ ''/locked'' # [''/corpus''])
        = (0, Some (WithStack (PathError ''open'' ''/locked/priv'')))"
proof -
  have d: "nestedFs ''/corpus'' =
        Some (Dir ([(''a'', File 5)]
                   @ (''sub'', Dir [(''b'', File 7), (''deep'', Dir [(''c'', File 1)])])
                   # [(''z'', File 0)]))"
    by (simp add: nestedFs_def)
  have h: "\<forall>d \<in> set [''/corpus'']. failureAt nestedFs d = None"
    by (simp add: failureAt_nestedFs)
  note t = countSeeds_recursive_and_failure
    [of nestedFs "''/corpus''" "[(''a'', File 5)]" "''sub''"
        "[(''b'', File 7), (''deep'', Dir [(''c'', File 1)])]" "[(''z'', File 0)]"
        "[''/corpus'']" "''/locked''" "PathError ''open'' ''/locked/priv''" "[''/corpus'']"]
  from t d h failureAt_nestedFs show ?thesis by simp
qed


section \<open>Properties of the installation bundler\<close>

lemma NewInstallationBundler_dev:
  "NewInstallationBundler installEnv0 \<lparr>Version = ''dev'', TargetDir = ''/b''\<rparr> =
     (Some \<lparr>Version = ''dev'', TargetDir = ''/b'', projectDir = ''/src/cifuzz'',
            mutex = ''/src/cifuzz/.installer-lock'', isLocked = False\<rparr>,
      None,
      [CallMutexNew ''/src/cifuzz/.installer-lock'', CallMkdirAll ''/b/bin'',
       CallMkdirAll ''/b/lib'', CallMkdirAll ''/b/share/cifuzz''])"
  by (simp add: NewInstallationBundler_def validateTargetDir_def installEnv0_def
      createDirectoryLayout_def lockFile_def binDir_def libDir_def shareDir_def Join_def Clean_def)

text \<open>
  C10. Called with options whose \<open>Version\<close> is the empty string,
  \<open>NewInstallationBundler\<close> returns a nil bundler and a nil error, whatever the target
  directory and the environment are, and makes no call: the branch that rejects the empty
  version reports no failure to the caller.
\<close>

theorem NewInstallationBundler_empty_version:
  "NewInstallationBundler env (options\<lparr>Version := []\<rparr>) = (None, None, [])"
  by (simp add: NewInstallationBundler_def)

section \<open>Properties of findFuzzTestExecutable\<close>

lemma walk_findFn:
  "snd (walk (findFn ft) path name d ex) = (if lstatFails d then Some NilDeref else None) \<and>
   (\<not> lstatFails d \<longrightarrow>
      fst (walk (findFn ft) path name d ex) = foldl (pick ft) ex (visited path name d))"
  "snd (walkNames (findFn ft) path es ex) = (if lstatFailsIn es then Some NilDeref else None) \<and>
   (\<not> lstatFailsIn es \<longrightarrow>
      fst (walkNames (findFn ft) path es ex) = foldl (pick ft) ex (visitedIn path es))"
proof (induction "findFn ft" path name d ex and "findFn ft" path es ex
       rule: walk_walkNames.induct)
  case (1 path name n s)
  show ?case by (simp add: findFn_def pick_def)
next
  case (2 path name e s)
  show ?case by (simp add: findFn_def)
next
  case (3 path name es s)
  obtain s1 where c: "findFn ft path (Some (name, Dir es)) None s = (s1, None)"
    and s1: "s1 = pick ft s (path, name)"
    by (simp add: findFn_def pick_def)
  from 3[OF c [symmetric] refl] show ?case by (simp add: c s1)
next
  case (4 path name e s)
  show ?case by (simp add: findFn_def pick_def)
next
  case (5 path s)
  show ?case by simp
next
  case (6 path name d es s)
  obtain s1 r where w: "walk (findFn ft) (Join [path, name]) name d s = (s1, r)"
    by (cases "walk (findFn ft) (Join [path, name]) name d s")
  from 6(1) w have r: "r = (if lstatFails d then Some NilDeref else None)"
    and s1: "\<not> lstatFails d \<longrightarrow> s1 = foldl (pick ft) s (visited (Join [path, name]) name d)"
    by simp_all
  show ?case
  proof (cases "lstatFails d")
    case True
    with w r show ?thesis by simp
  next
    case False
    with r have rn: "r = None" by simp
    from False s1 have "s1 = foldl (pick ft) s (visited (Join [path, name]) name d)" by simp
    with 6(2)[OF w [symmetric]] w rn False show ?thesis by simp
  qed
qed

lemma foldl_pick:
  "foldl (pick ft) ex vs =
     (if matching ft vs = [] then ex else fst (last (matching ft vs)))"
  by (induction vs rule: rev_induct) (auto simp: pick_def matching_def)

lemma cleanElems_nonempty:
  "[] \<notin> set out \<Longrightarrow> [] \<notin> set (cleanElems rooted out es)"
proof (induction rooted out es rule: cleanElems.induct)
  case (1 rooted out)
  then show ?case by simp
next
  case (2 rooted out e es)
  show ?case
  proof (cases "e = [] \<or> e = ''.''")
    case True
    with 2 show ?thesis by simp
  next
    case False
    show ?thesis
    proof (cases "e = ''..''")
      case dd: True
      show ?thesis
      proof (cases out)
        case Nil
        with 2 False dd show ?thesis by (cases rooted) simp_all
      next
        case (Cons l ls)
        with 2 False dd show ?thesis by (cases "l = ''..''") simp_all
      qed
    next
      case nd: False
      from False "2.prems" have "[] \<notin> set (e # out)" by auto
      with "2.IH"(6) False nd show ?thesis by simp
    qed
  qed
qed

lemma joinSep_nonempty: "es \<noteq> [] \<Longrightarrow> [] \<notin> set es \<Longrightarrow> joinSep es \<noteq> []"
  by (induction es rule: joinSep.induct) simp_all

lemma Clean_nonempty: "Clean p \<noteq> []"
proof (cases "cleanElems False [] (splitSlash p)")
  case Nil
  then show ?thesis by (simp add: Clean_def)
next
  case (Cons e es)
  have "[] \<notin> set (cleanElems False [] (splitSlash p))"
    by (rule cleanElems_nonempty) simp
  with Cons joinSep_nonempty [of "e # es"] have "joinSep (e # es) \<noteq> []" by simp
  with Cons show ?thesis by (simp add: Clean_def)
qed

lemma Join_nonempty: "path \<noteq> [] \<Longrightarrow> Join [path, name] \<noteq> []"
  by (simp add: Join_def Clean_nonempty)

lemma visited_nonempty:
  "path \<noteq> [] \<Longrightarrow> v \<in> set (visited path name d) \<Longrightarrow> fst v \<noteq> []"
  "path \<noteq> [] \<Longrightarrow> v \<in> set (visitedIn path es) \<Longrightarrow> fst v \<noteq> []"
proof (induction path name d and path es rule: visited_visitedIn.induct)
  case (6 path name d es)
  then show ?case using Join_nonempty [of path name] by auto
qed auto

lemma last_matching_nonempty:
  assumes "root \<noteq> []" "matching ft (visited root name d) \<noteq> []"
  shows "fst (last (matching ft (visited root name d))) \<noteq> []"
proof -
  from assms(2) have "last (matching ft (visited root name d)) \<in> set (matching ft (visited root name d))"
    by (rule last_in_set)
  then have "last (matching ft (visited root name d)) \<in> set (visited root name d)"
    by (simp add: matching_def)
  with assms(1) show ?thesis by (rule visited_nonempty(1))
qed

lemma Walk_findFn:
  "Walk fs bdir (findFn ft) [] =
     (if lstatFailsAt fs bdir then (fst (Walk fs bdir (findFn ft) []), Some NilDeref)
      else if matching ft (visitedAt fs bdir) = [] then ([], None)
      else (fst (last (matching ft (visitedAt fs bdir))), None))"
proof (cases "Lstat fs bdir")
  case (Inl e)
  then show ?thesis by (simp add: Walk_def lstatFailsAt_def findFn_def)
next
  case (Inr d)
  show ?thesis
  proof (cases "lstatFails d")
    case True
    with Inr walk_findFn(1) [of ft bdir "basename bdir" d "[]"] show ?thesis
      by (simp add: Walk_def lstatFailsAt_def prod_eq_iff)
  next
    case False
    with Inr walk_findFn(1) [of ft bdir "basename bdir" d "[]"] show ?thesis
      by (simp add: Walk_def lstatFailsAt_def visitedAt_def prod_eq_iff foldl_pick)
  qed
qed

lemma visitedAt_nonempty:
  "matching ft (visitedAt fs bdir) \<noteq> [] \<Longrightarrow>
   fst (last (matching ft (visitedAt fs bdir))) \<noteq> []"
proof (cases "Lstat fs bdir")
  case (Inl e)
  assume "matching ft (visitedAt fs bdir) \<noteq> []"
  with Inl show ?thesis by (simp add: visitedAt_def matching_def)
next
  case (Inr d)
  assume m: "matching ft (visitedAt fs bdir) \<noteq> []"
  from Inr have "bdir \<noteq> []" by (auto simp: Lstat_def)
  with m Inr show ?thesis by (simp add: visitedAt_def last_matching_nonempty)
qed

text \<open>
  What \<open>findFuzzTestExecutable\<close> does on every input. It returns its argument
  unchanged when that path exists. Otherwise, where \<open>Lstat\<close> succeeds for the build
  directory and all it holds, it walks the whole build directory and returns the path of
  the last entry visited whose name is the fuzz test's, and the error when no visited
  entry has that name; the entries of a walk are the files and the directories below the
  build directory and the build directory itself. Where \<open>Lstat\<close> fails for the build
  directory or for an entry, the closure is called with a nil \<open>FileInfo\<close> and the call
  panics.
\<close>

lemma findFuzzTestExecutable_result:
  "findFuzzTestExecutable fs bdir test =
     (if fileExists fs test then Returns (test, None)
      else if lstatFailsAt fs bdir then Panics
      else if matching test (visitedAt fs bdir) = [] then
        Returns ([], Some (Errorf (''Could not find executable for fuzz test '' @ test)))
      else Returns (fst (last (matching test (visitedAt fs bdir))), None))"
proof -
  obtain ex r where w: "Walk fs bdir (findFn test) [] = (ex, r)"
    by (cases "Walk fs bdir (findFn test) []")
  show ?thesis
  proof (cases "lstatFailsAt fs bdir")
    case True
    with Walk_findFn [of fs bdir test] w have "r = Some NilDeref" by simp
    with w True show ?thesis by (simp add: findFuzzTestExecutable_def)
  next
    case False
    show ?thesis
    proof (cases "matching test (visitedAt fs bdir) = []")
      case True
      with False Walk_findFn [of fs bdir test] w have "ex = [] \<and> r = None" by simp
      with w True False show ?thesis by (simp add: findFuzzTestExecutable_def)
    next
      case nm: False
      with False Walk_findFn [of fs bdir test] w
      have "ex = fst (last (matching test (visitedAt fs bdir))) \<and> r = None" by simp
      with w nm False visitedAt_nonempty [OF nm] show ?thesis
        by (simp add: findFuzzTestExecutable_def)
    qed
  qed
qed

lemma visitedAt_buildFs:
  "visitedAt buildFs ''/p/.cifuzz-build'' =
     [(''/p/.cifuzz-build'', ''.cifuzz-build''),
      (''/p/.cifuzz-build/CMakeFiles'', ''CMakeFiles''),
      (''/p/.cifuzz-build/CMakeFiles/my_fuzz_test.dir'', ''my_fuzz_test.dir''),
      (''/p/.cifuzz-build/CMakeFiles/my_fuzz_test.dir/main.o'', ''main.o''),
      (''/p/.cifuzz-build/my_fuzz_test'', ''my_fuzz_test''),
      (''/p/.cifuzz-build/tests'', ''tests''),
      (''/p/.cifuzz-build/tests/my_fuzz_test'', ''my_fuzz_test''),
      (''/p/.cifuzz-build/tests/other'', ''other'')]"
  by (simp add: visitedAt_def Lstat_def buildFs_def basename_def Join_def Clean_def)

lemma findFuzzTestExecutable_buildFs:
  "findFuzzTestExecutable buildFs ''/p/.cifuzz-build'' ''my_fuzz_test''
     = Returns (''/p/.cifuzz-build/tests/my_fuzz_test'', None)"
  "findFuzzTestExecutable buildFs ''/p/.cifuzz-build'' ''/bin/tool''
     = Returns (''/bin/tool'', None)"
  "findFuzzTestExecutable buildFs ''/p/.cifuzz-build'' ''nothing''
     = Returns ([], Some (Errorf ''Could not find executable for fuzz test nothing''))"
  "findFuzzTestExecutable buildFs [] ''my_fuzz_test'' = Panics"
  by (simp_all add: findFuzzTestExecutable_def fileExists_def Stat_def Walk_def Lstat_def
      buildFs_def basename_def Join_def Clean_def findFn_def)

text \<open>
  C9. \<open>findFuzzTestExecutable\<close> is to return the last visited file of the fuzz
  test's name, or an error when there is none. It does neither where \<open>Lstat\<close> fails
  during the walk: for a build directory that was never set (the empty path, as
  \<open>buildWithUnknownBuildSystem\<close> leaves it) or that does not exist, and for a build
  directory that holds the executable next to an entry that has just been removed, the
  call panics on the nil \<open>FileInfo\<close>.
\<close>

theorem findFuzzTestExecutable_panics:
  "fileExists buildFs ''my_fuzz_test'' = False
   \<and> findFuzzTestExecutable buildFs [] ''my_fuzz_test'' = Panics
   \<and> findFuzzTestExecutable buildFs ''/p/no-build-dir'' ''my_fuzz_test'' = Panics
   \<and> matching ''my_fuzz_test'' (visitedAt goneFs ''/p/.cifuzz-build'')
       = [(''/p/.cifuzz-build/my_fuzz_test'', ''my_fuzz_test'')]
   \<and> findFuzzTestExecutable goneFs ''/p/.cifuzz-build'' ''my_fuzz_test'' = Panics"
  by (simp add: findFuzzTestExecutable_def fileExists_def Stat_def Walk_def Lstat_def
      buildFs_def goneFs_def basename_def Join_def Clean_def findFn_def matching_def visitedAt_def)

section \<open>Properties of the run command\<close>

lemma finalMetricsCalls_simps:
  "finalMetricsCalls [] = 0"
  "finalMetricsCalls (EvPrintFinalMetrics n # evs) = Suc (finalMetricsCalls evs)"
  "finalMetricsCalls (EvBuildFuzzTest # evs) = finalMetricsCalls evs"
  "finalMetricsCalls (EvNewReportHandler # evs) = finalMetricsCalls evs"
  "finalMetricsCalls (EvMkdirAll p # evs) = finalMetricsCalls evs"
  "finalMetricsCalls (EvRunnerRun ro # evs) = finalMetricsCalls evs"
  "finalMetricsCalls (EvWaitReturned r # evs) = finalMetricsCalls evs"
  "finalMetricsCalls (xs @ ys) = finalMetricsCalls xs + finalMetricsCalls ys"
  by (simp_all add: finalMetricsCalls_def)

lemma useDefaultCorpusDir_events:
  "useDefaultCorpusDir c fs = (r, c1, fs1, evs) \<Longrightarrow>
   finalMetricsCalls evs = 0 \<and> (\<forall>x. EvWaitReturned x \<notin> set evs)
   \<and> (\<forall>n. EvPrintFinalMetrics n \<notin> set evs)"
  by (auto simp: useDefaultCorpusDir_def finalMetricsCalls_simps split: if_splits prod.splits option.splits)

lemma runFuzzTest_events:
  assumes "runFuzzTest env c fs = Returns (err, c1, fs1, evs)"
  shows "finalMetricsCalls evs = 0"
    and "(EvWaitReturned None \<in> set evs) = (err = None)"
    and "EvPrintFinalMetrics n \<notin> set evs"
proof -
  let ?f = "findFuzzTestExecutable fs (buildDir c) (fuzzTest (opts c))"
  have "finalMetricsCalls evs = 0 \<and> ((EvWaitReturned None \<in> set evs) = (err = None))
      \<and> EvPrintFinalMetrics n \<notin> set evs"
  proof (cases ?f)
    case Panics
    with assms show ?thesis by (simp add: runFuzzTest_def)
  next
    case (Returns res)
    obtain exe r where res: "res = (exe, r)" by (cases res)
    show ?thesis
    proof (cases r)
      case (Some e)
      with assms Returns res show ?thesis
        by (auto simp: runFuzzTest_def finalMetricsCalls_simps)
    next
      case None
      obtain r1 c2 fs2 evs2 where u: "useDefaultCorpusDir c fs = (r1, c2, fs2, evs2)"
        by (cases "useDefaultCorpusDir c fs") auto
      note ue = useDefaultCorpusDir_events [OF u]
      show ?thesis
      proof (cases r1)
        case (Some e)
        with assms Returns res None u ue show ?thesis
          by (auto simp: runFuzzTest_def)
      next
        case n1: None
        show ?thesis
        proof (cases "runnerOpts env c2 exe")
          case Panics
          with assms Returns res None u n1 show ?thesis by (simp add: runFuzzTest_def)
        next
          case ro: (Returns ro)
          obtain e3 fs3 where w: "routinesWait env ro fs2 = (e3, fs3)"
            by (cases "routinesWait env ro fs2")
          with assms Returns res None u n1 ro ue show ?thesis
            by (auto simp: runFuzzTest_def finalMetricsCalls_simps)
        qed
      qed
    qed
  qed
  then show "finalMetricsCalls evs = 0"
    and "(EvWaitReturned None \<in> set evs) = (err = None)"
    and "EvPrintFinalMetrics n \<notin> set evs" by simp_all
qed

lemma finalMetricsCalls_zero:
  "finalMetricsCalls evs = 0 \<Longrightarrow> EvPrintFinalMetrics n \<notin> set evs"
  by (auto simp: finalMetricsCalls_def filter_empty_conv)

lemma runFuzzTest_cases:
  assumes "runFuzzTest env c fs = Returns (err, c1, fs1, evs)"
  shows "(err \<noteq> None \<and> (\<forall>r. EvWaitReturned r \<notin> set evs) \<and> finalMetricsCalls evs = 0)
       \<or> (\<exists>pre ro. evs = pre @ [EvRunnerRun ro, EvWaitReturned err]
             \<and> finalMetricsCalls pre = 0 \<and> (\<forall>r. EvWaitReturned r \<notin> set pre))"
proof (cases "findFuzzTestExecutable fs (buildDir c) (fuzzTest (opts c))")
  case Panics
  with assms show ?thesis by (simp add: runFuzzTest_def)
next
  case (Returns res)
  obtain exe r where res: "res = (exe, r)" by (cases res)
  show ?thesis
  proof (cases r)
    case (Some e)
    with assms Returns res show ?thesis
      by (auto simp: runFuzzTest_def finalMetricsCalls_simps)
  next
    case None
    obtain r1 c2 fs2 evs2 where u: "useDefaultCorpusDir c fs = (r1, c2, fs2, evs2)"
      by (cases "useDefaultCorpusDir c fs") auto
    note ue = useDefaultCorpusDir_events [OF u]
    show ?thesis
    proof (cases r1)
      case (Some e)
      with assms Returns res None u ue show ?thesis
        by (auto simp: runFuzzTest_def)
    next
      case n1: None
      show ?thesis
      proof (cases "runnerOpts env c2 exe")
        case Panics
        with assms Returns res None u n1 show ?thesis by (simp add: runFuzzTest_def)
      next
        case ro: (Returns ro)
        obtain e3 fs3 where w: "routinesWait env ro fs2 = (e3, fs3)"
          by (cases "routinesWait env ro fs2")
        with assms Returns res None u n1 ro
        have "evs = evs2 @ [EvRunnerRun ro, EvWaitReturned err]"
          by (auto simp: runFuzzTest_def)
        with ue show ?thesis by blast
      qed
    qed
  qed
qed

text \<open>The five ways \<open>run\<close> returns, by the first step that returns an error.\<close>

lemma run_build_fails:
  "buildFuzzTest env c fs = (Some e, bd, fs1) \<Longrightarrow>
   run env c fs = Returns (Some e, c\<lparr>buildDir := bd\<rparr>, fs1, [EvBuildFuzzTest])"
  by (simp add: run_def)

lemma run_handler_fails:
  "buildFuzzTest env c fs = (None, bd, fs1) \<Longrightarrow> NewReportHandler env = Some e \<Longrightarrow>
   run env c fs = Returns (Some e, c\<lparr>buildDir := bd\<rparr>, fs1, [EvBuildFuzzTest, EvNewReportHandler])"
  by (simp add: run_def)

lemma run_fuzz_fails:
  "buildFuzzTest env c fs = (None, bd, fs1) \<Longrightarrow> NewReportHandler env = None \<Longrightarrow>
   runFuzzTest env (c\<lparr>buildDir := bd\<rparr>) fs1 = Returns (Some e, c2, fs2, evs2) \<Longrightarrow>
   run env c fs = Returns (Some e, c2, fs2, [EvBuildFuzzTest, EvNewReportHandler] @ evs2)"
  by (simp add: run_def)

lemma run_count_fails:
  "buildFuzzTest env c fs = (None, bd, fs1) \<Longrightarrow> NewReportHandler env = None \<Longrightarrow>
   runFuzzTest env (c\<lparr>buildDir := bd\<rparr>) fs1 = Returns (None, c2, fs2, evs2) \<Longrightarrow>
   countSeeds fs2 (seedsDirs (opts c2)) = (k, Some e) \<Longrightarrow>
   run env c fs = Returns (Some e, c2, fs2, [EvBuildFuzzTest, EvNewReportHandler] @ evs2)"
  by (simp add: run_def printFinalMetrics_def)

lemma run_prints:
  "buildFuzzTest env c fs = (None, bd, fs1) \<Longrightarrow> NewReportHandler env = None \<Longrightarrow>
   runFuzzTest env (c\<lparr>buildDir := bd\<rparr>) fs1 = Returns (None, c2, fs2, evs2) \<Longrightarrow>
   countSeeds fs2 (seedsDirs (opts c2)) = (n, None) \<Longrightarrow>
   run env c fs = Returns (PrintFinalMetrics env n, c2, fs2,
     [EvBuildFuzzTest, EvNewReportHandler] @ evs2 @ [EvPrintFinalMetrics n])"
  by (simp add: run_def printFinalMetrics_def)

lemma MkdirAll_buildFs:
  "MkdirAll buildFs ''/p/.cifuzz-corpus/my_fuzz_test''
     = (None, buildFs(''/p/.cifuzz-corpus/my_fuzz_test'' \<mapsto> Dir []))"
  by (simp add: MkdirAll_def Mkdir_def Stat_def buildFs_def)

lemma runFuzzTest_envDone:
  "runFuzzTest envDone (cmd0\<lparr>buildDir := ''/p/.cifuzz-build''\<rparr>) buildFs =
     Returns (None, doneCmd, doneFs,
              [EvMkdirAll ''/p/.cifuzz-corpus/my_fuzz_test'', EvRunnerRun doneRunnerOpts,
               EvWaitReturned None])"
  by (simp add: runFuzzTest_def cmd0_def findFuzzTestExecutable_buildFs useDefaultCorpusDir_def
      defaultCorpusDir_def Join_def Clean_def MkdirAll_buildFs runnerOpts_def envDone_def doneCmd_def
      doneFs_def doneRunnerOpts_def)

lemma countSeeds_doneFs:
  "countSeeds doneFs [''/p/.cifuzz-corpus/my_fuzz_test''] = (2, None)"
  by (simp add: countSeeds_def WalkDir_def Lstat_def doneFs_def countSeedsFn_def Join_def Clean_def)

lemma run_envDone:
  "run envDone cmd0 buildFs = Returns (None, doneCmd, doneFs, doneEvents)"
proof -
  have b: "buildFuzzTest envDone cmd0 buildFs = (None, ''/p/.cifuzz-build'', buildFs)"
    and h: "NewReportHandler envDone = None"
    and p: "PrintFinalMetrics envDone 2 = None"
    by (simp_all add: envDone_def)
  have s: "seedsDirs (opts doneCmd) = [''/p/.cifuzz-corpus/my_fuzz_test'']"
    by (simp add: doneCmd_def)
  show ?thesis
    by (simp add: run_def b h runFuzzTest_envDone printFinalMetrics_def s countSeeds_doneFs p
        doneEvents_def)
qed

lemma run_envInterrupted:
  "run envInterrupted cmd0 buildFs =
     Returns (Some (SilentError (SignalError ''interrupt'')), doneCmd,
              buildFs(''/p/.cifuzz-corpus/my_fuzz_test'' \<mapsto> Dir []),
              [EvBuildFuzzTest, EvNewReportHandler, EvMkdirAll ''/p/.cifuzz-corpus/my_fuzz_test'',
               EvRunnerRun doneRunnerOpts,
               EvWaitReturned (Some (SilentError (SignalError ''interrupt'')))])"
proof -
  have b: "buildFuzzTest envInterrupted cmd0 buildFs = (None, ''/p/.cifuzz-build'', buildFs)"
    and h: "NewReportHandler envInterrupted = None"
    by (simp_all add: envInterrupted_def envDone_def)
  have r: "runFuzzTest envInterrupted (cmd0\<lparr>buildDir := ''/p/.cifuzz-build''\<rparr>) buildFs =
     Returns (Some (SilentError (SignalError ''interrupt'')), doneCmd,
              buildFs(''/p/.cifuzz-corpus/my_fuzz_test'' \<mapsto> Dir []),
              [EvMkdirAll ''/p/.cifuzz-corpus/my_fuzz_test'', EvRunnerRun doneRunnerOpts,
               EvWaitReturned (Some (SilentError (SignalError ''interrupt'')))])"
    by (simp add: runFuzzTest_def cmd0_def findFuzzTestExecutable_buildFs useDefaultCorpusDir_def
        defaultCorpusDir_def Join_def Clean_def MkdirAll_buildFs runnerOpts_def envInterrupted_def
        envDone_def doneCmd_def doneRunnerOpts_def)
  show ?thesis by (simp add: run_def b h r)
qed

lemma run_envBuildFails:
  "run envBuildFails cmd0 buildFs =
     Returns (Some (Errorf ''build failed''), cmd0\<lparr>buildDir := ''/p/.cifuzz-build''\<rparr>, buildFs,
              [EvBuildFuzzTest])"
  by (simp add: run_def envBuildFails_def envDone_def)

lemma run_envHandlerFails:
  "run envHandlerFails cmd0 buildFs =
     Returns (Some (Errorf ''no report handler''), cmd0\<lparr>buildDir := ''/p/.cifuzz-build''\<rparr>,
              buildFs, [EvBuildFuzzTest, EvNewReportHandler])"
  by (simp add: run_def envHandlerFails_def envDone_def)

lemma runFuzzTest_cmdNothing:
  "runFuzzTest envDone (cmdNothing\<lparr>buildDir := ''/p/.cifuzz-build''\<rparr>) buildFs =
     Returns (Some (Errorf ''Could not find executable for fuzz test nothing''),
              cmdNothing\<lparr>buildDir := ''/p/.cifuzz-build''\<rparr>, buildFs, [])"
  by (simp add: runFuzzTest_def cmdNothing_def cmd0_def findFuzzTestExecutable_buildFs)

lemma run_cmdNothing:
  "run envDone cmdNothing buildFs =
     Returns (Some (Errorf ''Could not find executable for fuzz test nothing''),
              cmdNothing\<lparr>buildDir := ''/p/.cifuzz-build''\<rparr>, buildFs,
              [EvBuildFuzzTest, EvNewReportHandler])"
proof -
  have b: "buildFuzzTest envDone cmdNothing buildFs = (None, ''/p/.cifuzz-build'', buildFs)"
    and h: "NewReportHandler envDone = None"
    by (simp_all add: envDone_def)
  show ?thesis by (simp add: run_def b h runFuzzTest_cmdNothing)
qed

lemma countSeeds_corpus_removed:
  "countSeeds (buildFs(''/p/.cifuzz-corpus/my_fuzz_test'' := None)) [''/p/.cifuzz-corpus/my_fuzz_test'']
     = (0, Some (WithStack (PathError ''lstat'' ''/p/.cifuzz-corpus/my_fuzz_test'')))"
  by (simp add: countSeeds_def WalkDir_def Lstat_def countSeedsFn_def)

lemma run_envCorpusRemoved:
  "run envCorpusRemoved cmd0 buildFs =
     Returns (Some (WithStack (PathError ''lstat'' ''/p/.cifuzz-corpus/my_fuzz_test'')), doneCmd,
              buildFs(''/p/.cifuzz-corpus/my_fuzz_test'' := None),
              [EvBuildFuzzTest, EvNewReportHandler, EvMkdirAll ''/p/.cifuzz-corpus/my_fuzz_test'',
               EvRunnerRun doneRunnerOpts, EvWaitReturned None])"
proof -
  have b: "buildFuzzTest envCorpusRemoved cmd0 buildFs = (None, ''/p/.cifuzz-build'', buildFs)"
    and h: "NewReportHandler envCorpusRemoved = None"
    by (simp_all add: envCorpusRemoved_def envDone_def)
  have r: "runFuzzTest envCorpusRemoved (cmd0\<lparr>buildDir := ''/p/.cifuzz-build''\<rparr>) buildFs =
     Returns (None, doneCmd, buildFs(''/p/.cifuzz-corpus/my_fuzz_test'' := None),
              [EvMkdirAll ''/p/.cifuzz-corpus/my_fuzz_test'', EvRunnerRun doneRunnerOpts,
               EvWaitReturned None])"
    by (simp add: runFuzzTest_def cmd0_def findFuzzTestExecutable_buildFs useDefaultCorpusDir_def
        defaultCorpusDir_def Join_def Clean_def MkdirAll_buildFs runnerOpts_def envCorpusRemoved_def
        envDone_def doneCmd_def doneRunnerOpts_def)
  have s: "seedsDirs (opts doneCmd) = [''/p/.cifuzz-corpus/my_fuzz_test'']"
    by (simp add: doneCmd_def)
  show ?thesis
    by (simp add: run_def b h r printFinalMetrics_def s countSeeds_corpus_removed)
qed

text \<open>
  C2 (amended). In a run that returns, \<open>PrintFinalMetrics\<close> is invoked at most once. It
  is invoked exactly when the build, \<open>NewReportHandler\<close>, \<open>runFuzzTest\<close> and
  \<open>countSeeds\<close> have all returned no error, and \<open>run\<close> then returns what
  \<open>PrintFinalMetrics\<close> returns. When one of the four returns an error \<open>e\<close> (the
  build, the report handler, \<open>runFuzzTest\<close> before or at \<open>routines.Wait()\<close>, for
  instance the signal error of an interrupted run, or \<open>countSeeds\<close> after it), \<open>run\<close>
  returns \<open>e\<close> and \<open>PrintFinalMetrics\<close> is not invoked. On every path, no final
  metrics come before the Process Supervisor's \<open>Run\<close> has returned, that is before the
  subprocess has ended and its output has been read to the end: an invocation of
  \<open>PrintFinalMetrics\<close> is the last event of the run and comes directly after the runner
  was started and \<open>routines.Wait()\<close> has returned nil, with no other return of
  \<open>routines.Wait()\<close> and no other invocation before it, and it gets the number that
  \<open>countSeeds\<close> returns on the file system the fuzzing has left.
\<close>

theorem run_final_metrics:
  assumes "run env c fs = Returns (err, c', fs', evs)"
  shows "finalMetricsCalls evs \<le> 1
     \<and> ((finalMetricsCalls evs = 1) =
          (EvWaitReturned None \<in> set evs \<and> snd (countSeeds fs' (seedsDirs (opts c'))) = None))
     \<and> (EvPrintFinalMetrics n \<in> set evs \<longrightarrow>
          (\<exists>pre ro. evs = pre @ [EvRunnerRun ro, EvWaitReturned None, EvPrintFinalMetrics n]
                 \<and> finalMetricsCalls pre = 0 \<and> (\<forall>r. EvWaitReturned r \<notin> set pre)
                 \<and> countSeeds fs' (seedsDirs (opts c')) = (n, None)
                 \<and> err = PrintFinalMetrics env n))
     \<and> (fst (buildFuzzTest env c fs) = Some e \<longrightarrow> err = Some e \<and> finalMetricsCalls evs = 0)
     \<and> (fst (buildFuzzTest env c fs) = None \<longrightarrow> NewReportHandler env = Some e \<longrightarrow>
          err = Some e \<and> finalMetricsCalls evs = 0)
     \<and> (fst (buildFuzzTest env c fs) = None \<longrightarrow> NewReportHandler env = None \<longrightarrow>
          errorOf (runFuzzTest env (c\<lparr>buildDir := fst (snd (buildFuzzTest env c fs))\<rparr>)
                     (snd (snd (buildFuzzTest env c fs)))) = Some e \<longrightarrow>
          err = Some e \<and> finalMetricsCalls evs = 0)
     \<and> (EvWaitReturned (Some e) \<in> set evs \<longrightarrow> err = Some e \<and> finalMetricsCalls evs = 0)
     \<and> (EvWaitReturned None \<in> set evs \<longrightarrow>
          snd (countSeeds fs' (seedsDirs (opts c'))) = Some e \<longrightarrow>
          err = Some e \<and> finalMetricsCalls evs = 0)"
proof -
  obtain b bd fs1 where bf: "buildFuzzTest env c fs = (b, bd, fs1)"
    by (cases "buildFuzzTest env c fs") auto
  show ?thesis
  proof (cases b)
    case (Some x)
    from run_build_fails [OF bf [unfolded Some]] assms
    have "err = Some x" "evs = [EvBuildFuzzTest]" by simp_all
    with bf Some show ?thesis by (simp add: finalMetricsCalls_simps)
  next
    case bn: None
    note bf = bf [unfolded bn]
    show ?thesis
    proof (cases "NewReportHandler env")
      case (Some x)
      from run_handler_fails [OF bf Some] assms
      have "err = Some x" "evs = [EvBuildFuzzTest, EvNewReportHandler]" by simp_all
      with bf Some show ?thesis by (simp add: finalMetricsCalls_simps)
    next
      case hn: None
      show ?thesis
      proof (cases "runFuzzTest env (c\<lparr>buildDir := bd\<rparr>) fs1")
        case Panics
        with assms bf hn show ?thesis by (simp add: run_def)
      next
        case (Returns res)
        obtain r c2 fs2 evs2 where res: "res = (r, c2, fs2, evs2)" by (cases res) auto
        note rf = Returns [unfolded res]
        note ev = runFuzzTest_events [OF rf]
        note sh = runFuzzTest_cases [OF rf]
        show ?thesis
        proof (cases r)
          case (Some x)
          from run_fuzz_fails [OF bf hn rf [unfolded Some]] assms
          have e: "err = Some x" "evs = [EvBuildFuzzTest, EvNewReportHandler] @ evs2"
            by simp_all
          from sh Some have w: "\<forall>y. EvWaitReturned y \<in> set evs2 \<longrightarrow> y = Some x"
            by auto
          from ev Some have n0: "finalMetricsCalls evs2 = 0" "EvWaitReturned None \<notin> set evs2"
            "\<forall>k. EvPrintFinalMetrics k \<notin> set evs2" by simp_all
          from e w n0 bf hn rf Some show ?thesis
            by (auto simp: finalMetricsCalls_simps)
        next
          case rn: None
          from sh rn obtain pre ro where pre: "evs2 = pre @ [EvRunnerRun ro, EvWaitReturned None]"
            "finalMetricsCalls pre = 0" "\<forall>y. EvWaitReturned y \<notin> set pre"
            by auto
          obtain k ce where cs: "countSeeds fs2 (seedsDirs (opts c2)) = (k, ce)"
            by (cases "countSeeds fs2 (seedsDirs (opts c2))")
          show ?thesis
          proof (cases ce)
            case (Some x)
            from run_count_fails [OF bf hn rf [unfolded rn] cs [unfolded Some]] assms
            have e: "err = Some x" "c' = c2" "fs' = fs2"
              "evs = [EvBuildFuzzTest, EvNewReportHandler] @ evs2" by simp_all
            from pre have np: "EvPrintFinalMetrics n \<notin> set pre"
              by (simp add: finalMetricsCalls_zero)
            from e pre np cs Some bf hn rf rn show ?thesis
              by (auto simp: finalMetricsCalls_simps)
          next
            case None
            from run_prints [OF bf hn rf [unfolded rn] cs [unfolded None]] assms
            have e: "err = PrintFinalMetrics env k" "c' = c2" "fs' = fs2"
              "evs = [EvBuildFuzzTest, EvNewReportHandler] @ evs2 @ [EvPrintFinalMetrics k]"
              by simp_all
            have x: "evs = ([EvBuildFuzzTest, EvNewReportHandler] @ pre)
                 @ [EvRunnerRun ro, EvWaitReturned None, EvPrintFinalMetrics k]"
              using e(4) pre(1) by simp
            have y: "finalMetricsCalls ([EvBuildFuzzTest, EvNewReportHandler] @ pre) = 0"
              "\<forall>y. EvWaitReturned y \<notin> set ([EvBuildFuzzTest, EvNewReportHandler] @ pre)"
              using pre by (simp_all add: finalMetricsCalls_simps)
            have z: "EvPrintFinalMetrics n \<in> set evs \<longrightarrow> n = k"
              using e(4) pre(1) finalMetricsCalls_zero [OF pre(2), of n] by auto
            have c1: "finalMetricsCalls evs = 1"
              using x y by (simp add: finalMetricsCalls_simps)
            have c3: "EvPrintFinalMetrics n \<in> set evs \<longrightarrow>
               (\<exists>pre ro. evs = pre @ [EvRunnerRun ro, EvWaitReturned None, EvPrintFinalMetrics n]
                 \<and> finalMetricsCalls pre = 0 \<and> (\<forall>r. EvWaitReturned r \<notin> set pre)
                 \<and> countSeeds fs' (seedsDirs (opts c')) = (n, None)
                 \<and> err = PrintFinalMetrics env n)"
              using x y z e cs None by blast
            have w: "EvWaitReturned None \<in> set evs" "EvWaitReturned (Some e) \<notin> set evs"
              using x y by auto
            from c1 c3 w e cs None bf hn rf rn show ?thesis by simp
          qed
        qed
      qed
    qed
  qed
qed

text \<open>
  The finished run on \<open>buildFs\<close>: one call, last, directly after the return of
  \<open>routines.Wait()\<close>, with the two seeds. The runs that the build, the report handler,
  the search for the executable, an interrupt and the removed corpus directory end:
  each returns the error of that step, without a call.
\<close>

theorem run_final_metrics_witness:
  "run envDone cmd0 buildFs = Returns (None, doneCmd, doneFs, doneEvents)
   \<and> finalMetricsCalls doneEvents = 1
   \<and> EvWaitReturned None \<in> set doneEvents
   \<and> snd (countSeeds doneFs (seedsDirs (opts doneCmd))) = None
   \<and> (\<exists>pre ro. doneEvents = pre @ [EvRunnerRun ro, EvWaitReturned None, EvPrintFinalMetrics 2]
            \<and> finalMetricsCalls pre = 0
            \<and> countSeeds doneFs (seedsDirs (opts doneCmd)) = (2, None)
            \<and> PrintFinalMetrics envDone 2 = None)
   \<and> fst (buildFuzzTest envBuildFails cmd0 buildFs) = Some (Errorf ''build failed'')
   \<and> errorOf (run envBuildFails cmd0 buildFs) = Some (Errorf ''build failed'')
   \<and> finalMetricsCalls (eventsOf (run envBuildFails cmd0 buildFs)) = 0
   \<and> fst (buildFuzzTest envHandlerFails cmd0 buildFs) = None
   \<and> NewReportHandler envHandlerFails = Some (Errorf ''no report handler'')
   \<and> errorOf (run envHandlerFails cmd0 buildFs) = Some (Errorf ''no report handler'')
   \<and> finalMetricsCalls (eventsOf (run envHandlerFails cmd0 buildFs)) = 0
   \<and> errorOf (runFuzzTest envDone (cmdNothing\<lparr>buildDir := ''/p/.cifuzz-build''\<rparr>) buildFs)
        = Some (Errorf ''Could not find executable for fuzz test nothing'')
   \<and> errorOf (run envDone cmdNothing buildFs)
        = Some (Errorf ''Could not find executable for fuzz test nothing'')
   \<and> finalMetricsCalls (eventsOf (run envDone cmdNothing buildFs)) = 0
   \<and> EvWaitReturned (Some (SilentError (SignalError ''interrupt'')))
        \<in> set (eventsOf (run envInterrupted cmd0 buildFs))
   \<and> errorOf (run envInterrupted cmd0 buildFs) = Some (SilentError (SignalError ''interrupt''))
   \<and> finalMetricsCalls (eventsOf (run envInterrupted cmd0 buildFs)) = 0
   \<and> EvWaitReturned None \<in> set (eventsOf (run envCorpusRemoved cmd0 buildFs))
   \<and> snd (countSeeds (buildFs(''/p/.cifuzz-corpus/my_fuzz_test'' := None))
             (seedsDirs (opts doneCmd)))
        = Some (WithStack (PathError ''lstat'' ''/p/.cifuzz-corpus/my_fuzz_test''))
   \<and> errorOf (run envCorpusRemoved cmd0 buildFs)
        = Some (WithStack (PathError ''lstat'' ''/p/.cifuzz-corpus/my_fuzz_test''))
   \<and> finalMetricsCalls (eventsOf (run envCorpusRemoved cmd0 buildFs)) = 0"
proof -
  have m: "EvPrintFinalMetrics 2 \<in> set doneEvents" "EvWaitReturned None \<in> set doneEvents"
    by (simp_all add: doneEvents_def)
  have s: "seedsDirs (opts doneCmd) = [''/p/.cifuzz-corpus/my_fuzz_test'']"
    by (simp add: doneCmd_def)
  note d = run_final_metrics [where n = 2, OF run_envDone]
  note d1 = d [THEN conjunct2, THEN conjunct1]
  note d2 = d [THEN conjunct2, THEN conjunct2, THEN conjunct1, THEN mp, OF m(1)]
  have cs: "snd (countSeeds doneFs (seedsDirs (opts doneCmd))) = None"
    by (simp add: s countSeeds_doneFs)
  from d1 m(2) cs have a1: "finalMetricsCalls doneEvents = 1" by simp
  from d2 have a2: "\<exists>pre ro.
      doneEvents = pre @ [EvRunnerRun ro, EvWaitReturned None, EvPrintFinalMetrics 2]
      \<and> finalMetricsCalls pre = 0
      \<and> countSeeds doneFs (seedsDirs (opts doneCmd)) = (2, None)
      \<and> PrintFinalMetrics envDone 2 = None"
    by metis
  have b0: "fst (buildFuzzTest envBuildFails cmd0 buildFs) = Some (Errorf ''build failed'')"
    by (simp add: envBuildFails_def envDone_def)
  from run_final_metrics [where e = "Errorf ''build failed''", OF run_envBuildFails] b0
  have b1: "errorOf (run envBuildFails cmd0 buildFs) = Some (Errorf ''build failed'')"
    and b2: "finalMetricsCalls (eventsOf (run envBuildFails cmd0 buildFs)) = 0"
    by (simp_all add: run_envBuildFails)
  have h0: "fst (buildFuzzTest envHandlerFails cmd0 buildFs) = None"
    "NewReportHandler envHandlerFails = Some (Errorf ''no report handler'')"
    by (simp_all add: envHandlerFails_def envDone_def)
  from run_final_metrics [where e = "Errorf ''no report handler''", OF run_envHandlerFails] h0
  have h1: "errorOf (run envHandlerFails cmd0 buildFs) = Some (Errorf ''no report handler'')"
    and h2: "finalMetricsCalls (eventsOf (run envHandlerFails cmd0 buildFs)) = 0"
    by (simp_all add: run_envHandlerFails)
  have f0: "fst (buildFuzzTest envDone cmdNothing buildFs) = None"
    "NewReportHandler envDone = None"
    "fst (snd (buildFuzzTest envDone cmdNothing buildFs)) = ''/p/.cifuzz-build''"
    "snd (snd (buildFuzzTest envDone cmdNothing buildFs)) = buildFs"
    by (simp_all add: envDone_def)
  have f3: "errorOf (runFuzzTest envDone (cmdNothing\<lparr>buildDir := ''/p/.cifuzz-build''\<rparr>) buildFs)
        = Some (Errorf ''Could not find executable for fuzz test nothing'')"
    by (simp add: runFuzzTest_cmdNothing)
  from run_final_metrics [where e = "Errorf ''Could not find executable for fuzz test nothing''",
      OF run_cmdNothing] f0 f3
  have f1: "errorOf (run envDone cmdNothing buildFs)
        = Some (Errorf ''Could not find executable for fuzz test nothing'')"
    and f2: "finalMetricsCalls (eventsOf (run envDone cmdNothing buildFs)) = 0"
    by (simp_all add: run_cmdNothing)
  have i0: "EvWaitReturned (Some (SilentError (SignalError ''interrupt'')))
        \<in> set (eventsOf (run envInterrupted cmd0 buildFs))"
    by (simp add: run_envInterrupted)
  from run_final_metrics [where e = "SilentError (SignalError ''interrupt'')",
      OF run_envInterrupted] i0
  have i1: "errorOf (run envInterrupted cmd0 buildFs) = Some (SilentError (SignalError ''interrupt''))"
    and i2: "finalMetricsCalls (eventsOf (run envInterrupted cmd0 buildFs)) = 0"
    by (simp_all add: run_envInterrupted)
  have r0: "EvWaitReturned None \<in> set (eventsOf (run envCorpusRemoved cmd0 buildFs))"
    "snd (countSeeds (buildFs(''/p/.cifuzz-corpus/my_fuzz_test'' := None))
             (seedsDirs (opts doneCmd)))
        = Some (WithStack (PathError ''lstat'' ''/p/.cifuzz-corpus/my_fuzz_test''))"
    by (simp_all add: run_envCorpusRemoved s countSeeds_corpus_removed)
  from run_final_metrics
         [where e = "WithStack (PathError ''lstat'' ''/p/.cifuzz-corpus/my_fuzz_test'')",
          OF run_envCorpusRemoved] r0
  have r1: "errorOf (run envCorpusRemoved cmd0 buildFs)
        = Some (WithStack (PathError ''lstat'' ''/p/.cifuzz-corpus/my_fuzz_test''))"
    and r2: "finalMetricsCalls (eventsOf (run envCorpusRemoved cmd0 buildFs)) = 0"
    by (simp_all add: run_envCorpusRemoved)
  from run_envDone a1 m(2) cs a2 b0 b1 b2 h0 h1 h2 f3 f1 f2 i0 i1 i2 r0 r1 r2
  show ?thesis by (intro conjI)
qed

text \<open>
  The claim as it was stated fails on a run that an interrupt ends: \<open>routines.Wait()\<close>
  returns the signal error, \<open>run\<close> returns it, and \<open>PrintFinalMetrics\<close> is not called.
\<close>

theorem run_final_metrics_counterexample:
  "errorOf (run envInterrupted cmd0 buildFs) = Some (SilentError (SignalError ''interrupt''))
   \<and> finalMetricsCalls (eventsOf (run envInterrupted cmd0 buildFs)) = 0
   \<and> eventsOf (run envInterrupted cmd0 buildFs) =
        [EvBuildFuzzTest, EvNewReportHandler, EvMkdirAll ''/p/.cifuzz-corpus/my_fuzz_test'',
         EvRunnerRun doneRunnerOpts,
         EvWaitReturned (Some (SilentError (SignalError ''interrupt'')))]"
  by (simp add: run_envInterrupted finalMetricsCalls_simps)

lemma Mkdir_ok:
  "Mkdir fs p = (None, fs1) \<Longrightarrow> \<exists>d. fs1 p = Some d \<and> IsDir d"
  by (auto simp: Mkdir_def split: if_splits option.splits node.splits)

lemma MkdirAll_ok:
  assumes "MkdirAll fs p = (None, fs1)"
  shows "\<exists>d. fs1 p = Some d \<and> IsDir d"
proof (cases "Stat fs p")
  case (Inr dir)
  with assms have "IsDir dir" "fs1 = fs"
    by (auto simp: MkdirAll_def split: if_splits)
  moreover from Inr have "fs p = Some dir"
    by (auto simp: Stat_def split: if_splits option.splits node.splits)
  ultimately show ?thesis by auto
next
  case (Inl e)
  obtain r fs2 where m: "mkdirAllFrom fs (rev (dirPrefixes [] p)) = (r, fs2)"
    by (cases "mkdirAllFrom fs (rev (dirPrefixes [] p))")
  with assms Inl have "Mkdir fs2 p = (None, fs1)"
    by (cases r) (simp_all add: MkdirAll_def)
  then show ?thesis by (rule Mkdir_ok)
qed

lemma runFuzzTest_default:
  assumes "seedsDirs (opts c) = []"
    and "findFuzzTestExecutable fs (buildDir c) (fuzzTest (opts c)) = Returns (exe, None)"
    and "MkdirAll fs (defaultCorpusDir c) = (None, fs1)"
    and "runnerOpts env (c\<lparr>opts := (opts c)\<lparr>seedsDirs := [defaultCorpusDir c]\<rparr>\<rparr>) exe = Returns ro"
  shows "runFuzzTest env c fs =
     Returns (fst (routinesWait env ro fs1),
              c\<lparr>opts := (opts c)\<lparr>seedsDirs := [defaultCorpusDir c]\<rparr>\<rparr>,
              snd (routinesWait env ro fs1),
              [EvMkdirAll (defaultCorpusDir c), EvRunnerRun ro,
               EvWaitReturned (fst (routinesWait env ro fs1))])"
  using assms
  by (simp add: runFuzzTest_def useDefaultCorpusDir_def split: prod.splits)

lemma runFuzzTest_given:
  assumes "seedsDirs (opts c) = d # ds"
    and "findFuzzTestExecutable fs (buildDir c) (fuzzTest (opts c)) = Returns (exe, None)"
    and "runnerOpts env c exe = Returns ro"
  shows "runFuzzTest env c fs =
     Returns (fst (routinesWait env ro fs), c, snd (routinesWait env ro fs),
              [EvRunnerRun ro, EvWaitReturned (fst (routinesWait env ro fs))])"
  using assms
  by (simp add: runFuzzTest_def useDefaultCorpusDir_def split: prod.splits)

lemma validateSeedsDirs_fail:
  "d \<in> set ds \<Longrightarrow> Stat fs d = Inl e \<Longrightarrow> validateSeedsDirs fs ds = Some ErrSilent"
  by (induction ds) (auto split: sum.splits)

lemma validateSeedsDirs_ok:
  "validateSeedsDirs fs ds = None \<Longrightarrow> d \<in> set ds \<Longrightarrow> \<exists>info. Stat fs d = Inr info"
  by (induction ds) (auto split: sum.splits)

text \<open>
  With no seed directory given, \<open>runFuzzTest\<close> takes as the seed directory of the
  runner the path \<open>filepath.Join(ProjectDir, ".cifuzz-corpus", fuzzTest)\<close>, with no
  additional seed directories; it calls \<open>MkdirAll\<close> on it first, so the directory
  exists when the runner starts; and it stores it as the only entry of
  \<open>opts.seedsDirs\<close>.
\<close>

lemma default_corpus_dir:
  assumes "seedsDirs (opts c) = []"
    and "findFuzzTestExecutable fs (buildDir c) (fuzzTest (opts c)) = Returns (exe, None)"
    and "MkdirAll fs (defaultCorpusDir c) = (None, fs1)"
  shows "\<exists>ro. SeedsDir ro = Join [ProjectDir c, ''.cifuzz-corpus'', fuzzTest (opts c)]
       \<and> AdditionalSeedsDirs ro = []
       \<and> (\<exists>d. fs1 (SeedsDir ro) = Some d \<and> IsDir d)
       \<and> runFuzzTest env c fs =
           Returns (fst (routinesWait env ro fs1),
                    c\<lparr>opts := (opts c)\<lparr>seedsDirs := [SeedsDir ro]\<rparr>\<rparr>,
                    snd (routinesWait env ro fs1),
                    [EvMkdirAll (SeedsDir ro), EvRunnerRun ro,
                     EvWaitReturned (fst (routinesWait env ro fs1))])"
proof -
  let ?c1 = "c\<lparr>opts := (opts c)\<lparr>seedsDirs := [defaultCorpusDir c]\<rparr>\<rparr>"
  obtain ro where ro: "runnerOpts env ?c1 exe = Returns ro"
    and sd: "SeedsDir ro = defaultCorpusDir c" and ad: "AdditionalSeedsDirs ro = []"
    by (simp add: runnerOpts_def)
  from runFuzzTest_default [OF assms ro] MkdirAll_ok [OF assms(3)] sd ad
  show ?thesis by (intro exI [of _ ro]) (simp add: defaultCorpusDir_def)
qed

text \<open>
  For a fuzz test given by its name the path is the directory of that name below
  \<open>.cifuzz-corpus\<close>.
\<close>

lemma defaultCorpusDir_cmd0:
  "defaultCorpusDir cmd0 = ''/p/.cifuzz-corpus/my_fuzz_test''"
  by (simp add: defaultCorpusDir_def cmd0_def Join_def Clean_def)

text \<open>
  C6. The default seed location is to be a directory of the fuzz test below the hidden
  directory \<open>.cifuzz-corpus\<close> of the project. \<open>runFuzzTest\<close> joins the fuzz test as
  it was given on the command line to that path, and \<open>filepath.Join\<close> cleans the
  result: for the fuzz test \<open>../build/my_fuzz_test\<close>, a path that exists, the
  directory made and handed to the runner is \<open>/p/build/my_fuzz_test\<close>, which is not
  below \<open>.cifuzz-corpus\<close>.
\<close>

theorem default_corpus_dir_outside:
  "seedsDirs (opts cmdPath) = []
   \<and> findFuzzTestExecutable pathFs (buildDir cmdPath) (fuzzTest (opts cmdPath))
       = Returns (''../build/my_fuzz_test'', None)
   \<and> defaultCorpusDir cmdPath = ''/p/build/my_fuzz_test''
   \<and> MkdirAll pathFs ''/p/build/my_fuzz_test''
       = (None, pathFs(''/p/build'' \<mapsto> Dir [], ''/p/build/my_fuzz_test'' \<mapsto> Dir []))
   \<and> eventsOf (runFuzzTest envDone cmdPath pathFs)
       = [EvMkdirAll ''/p/build/my_fuzz_test'', EvRunnerRun pathRunnerOpts, EvWaitReturned None]
   \<and> SeedsDir pathRunnerOpts = ''/p/build/my_fuzz_test''"
proof -
  have s: "seedsDirs (opts cmdPath) = []" by (simp add: cmdPath_def cmd0_def)
  have f: "findFuzzTestExecutable pathFs (buildDir cmdPath) (fuzzTest (opts cmdPath))
       = Returns (''../build/my_fuzz_test'', None)"
    by (simp add: findFuzzTestExecutable_def fileExists_def Stat_def pathFs_def cmdPath_def
        cmd0_def)
  have d: "defaultCorpusDir cmdPath = ''/p/build/my_fuzz_test''"
    by (simp add: defaultCorpusDir_def cmdPath_def cmd0_def Join_def Clean_def)
  have m: "MkdirAll pathFs ''/p/build/my_fuzz_test''
       = (None, pathFs(''/p/build'' \<mapsto> Dir [], ''/p/build/my_fuzz_test'' \<mapsto> Dir []))"
    by (simp add: MkdirAll_def Mkdir_def Stat_def pathFs_def)
  have r: "runnerOpts envDone
        (cmdPath\<lparr>opts := (opts cmdPath)\<lparr>seedsDirs := [''/p/build/my_fuzz_test'']\<rparr>\<rparr>)
        ''../build/my_fuzz_test'' = Returns pathRunnerOpts"
    by (simp add: runnerOpts_def cmdPath_def cmd0_def envDone_def pathRunnerOpts_def
        doneRunnerOpts_def)
  have e: "eventsOf (runFuzzTest envDone cmdPath pathFs)
       = [EvMkdirAll ''/p/build/my_fuzz_test'', EvRunnerRun pathRunnerOpts, EvWaitReturned None]"
    using s by (simp add: runFuzzTest_def f useDefaultCorpusDir_def d m r)
               (simp add: envDone_def)
  have p: "SeedsDir pathRunnerOpts = ''/p/build/my_fuzz_test''"
    by (simp add: pathRunnerOpts_def)
  from s f d m e p show ?thesis by simp
qed

lemma findFuzzTestExecutable_projFs:
  "findFuzzTestExecutable projFs ''/p/.cifuzz-build'' ''my_fuzz_test''
     = Returns (''/p/.cifuzz-build/tests/my_fuzz_test'', None)"
  by (simp add: findFuzzTestExecutable_def fileExists_def Stat_def Walk_def Lstat_def
      projFs_def buildFs_def seedsFs_def basename_def Join_def Clean_def findFn_def map_add_def)

lemma runCommand_invalid:
  assumes "d \<in> set (seedsDirs (opts c))" and "Stat fs d = Inl e"
  shows "runCommand env c arg fs = Returns (Some ErrSilent, c\<lparr>opts := (opts c)\<lparr>fuzzTest := arg\<rparr>\<rparr>, fs, [])"
  using validateSeedsDirs_fail [OF assms]
  by (simp add: runCommand_def validate_def Let_def)

text \<open>
  C5 (amended). \<open>runFuzzTest\<close> hands the runner the first seed directory as its seed
  directory and the others as additional ones, and creates none of them: the file system
  the runner starts on is the one \<open>runFuzzTest\<close> was given. When no seed directory is
  given, the seed directory is the default corpus directory, which \<open>MkdirAll\<close> creates,
  and there are no additional ones. A seed directory that is given and cannot be statted
  is not created: \<open>validate\<close> returns \<open>ErrSilent\<close> and the command ends before
  \<open>run\<close>, with the file system as it was.
\<close>

theorem seed_corpus_set:
  "(seedsDirs (opts c) = d # ds \<longrightarrow>
    findFuzzTestExecutable fs (buildDir c) (fuzzTest (opts c)) = Returns (exe, None) \<longrightarrow>
      (\<exists>ro. SeedsDir ro = d \<and> AdditionalSeedsDirs ro = ds
         \<and> runFuzzTest env c fs =
             Returns (fst (routinesWait env ro fs), c, snd (routinesWait env ro fs),
                      [EvRunnerRun ro, EvWaitReturned (fst (routinesWait env ro fs))])))
   \<and> (seedsDirs (opts c) = [] \<longrightarrow>
      findFuzzTestExecutable fs (buildDir c) (fuzzTest (opts c)) = Returns (exe, None) \<longrightarrow>
      MkdirAll fs (defaultCorpusDir c) = (None, fs') \<longrightarrow>
      (\<exists>ro. SeedsDir ro = defaultCorpusDir c \<and> AdditionalSeedsDirs ro = []
         \<and> (\<exists>n. fs' (defaultCorpusDir c) = Some n \<and> IsDir n)
         \<and> eventsOf (runFuzzTest env c fs) =
             [EvMkdirAll (defaultCorpusDir c), EvRunnerRun ro,
              EvWaitReturned (fst (routinesWait env ro fs'))]))
   \<and> (x \<in> set (seedsDirs (opts c)) \<longrightarrow> Stat fs x = Inl e \<longrightarrow>
      runCommand env c arg fs =
        Returns (Some ErrSilent, c\<lparr>opts := (opts c)\<lparr>fuzzTest := arg\<rparr>\<rparr>, fs, []))"
proof (intro conjI impI)
  assume s: "seedsDirs (opts c) = d # ds"
    and f: "findFuzzTestExecutable fs (buildDir c) (fuzzTest (opts c)) = Returns (exe, None)"
  from s obtain ro where ro: "runnerOpts env c exe = Returns ro"
    and sd: "SeedsDir ro = d" "AdditionalSeedsDirs ro = ds"
    by (simp add: runnerOpts_def)
  from runFuzzTest_given [OF s f ro] sd
  show "\<exists>ro. SeedsDir ro = d \<and> AdditionalSeedsDirs ro = ds
         \<and> runFuzzTest env c fs =
             Returns (fst (routinesWait env ro fs), c, snd (routinesWait env ro fs),
                      [EvRunnerRun ro, EvWaitReturned (fst (routinesWait env ro fs))])"
    by (intro exI [of _ ro]) simp
next
  assume s: "seedsDirs (opts c) = []"
    and f: "findFuzzTestExecutable fs (buildDir c) (fuzzTest (opts c)) = Returns (exe, None)"
    and m: "MkdirAll fs (defaultCorpusDir c) = (None, fs')"
  obtain ro where ro: "runnerOpts env (c\<lparr>opts := (opts c)\<lparr>seedsDirs := [defaultCorpusDir c]\<rparr>\<rparr>) exe
        = Returns ro"
    and sd: "SeedsDir ro = defaultCorpusDir c" "AdditionalSeedsDirs ro = []"
    by (simp add: runnerOpts_def)
  from runFuzzTest_default [OF s f m ro] MkdirAll_ok [OF m] sd
  show "\<exists>ro. SeedsDir ro = defaultCorpusDir c \<and> AdditionalSeedsDirs ro = []
         \<and> (\<exists>n. fs' (defaultCorpusDir c) = Some n \<and> IsDir n)
         \<and> eventsOf (runFuzzTest env c fs) =
             [EvMkdirAll (defaultCorpusDir c), EvRunnerRun ro,
              EvWaitReturned (fst (routinesWait env ro fs'))]"
    by (intro exI [of _ ro]) simp
next
  assume "x \<in> set (seedsDirs (opts c))" and "Stat fs x = Inl e"
  then show "runCommand env c arg fs =
        Returns (Some ErrSilent, c\<lparr>opts := (opts c)\<lparr>fuzzTest := arg\<rparr>\<rparr>, fs, [])"
    by (rule runCommand_invalid)
qed

text \<open>
  The three cases at work: the seed directories \<open>/seeds/a\<close> and \<open>/seeds/b\<close> given, none
  given, and \<open>/missing\<close> given.
\<close>

theorem seed_corpus_set_witness:
  "seedsDirs (opts cmdSeeds) = ''/seeds/a'' # [''/seeds/b'']
   \<and> findFuzzTestExecutable projFs (buildDir cmdSeeds) (fuzzTest (opts cmdSeeds))
       = Returns (''/p/.cifuzz-build/tests/my_fuzz_test'', None)
   \<and> runFuzzTest envInterrupted cmdSeeds projFs =
       Returns (Some (SilentError (SignalError ''interrupt'')), cmdSeeds, projFs,
                [EvRunnerRun seedsRunnerOpts,
                 EvWaitReturned (Some (SilentError (SignalError ''interrupt'')))])
   \<and> seedsDirs (opts (cmd0\<lparr>buildDir := ''/p/.cifuzz-build''\<rparr>)) = []
   \<and> MkdirAll buildFs (defaultCorpusDir (cmd0\<lparr>buildDir := ''/p/.cifuzz-build''\<rparr>))
       = (None, buildFs(''/p/.cifuzz-corpus/my_fuzz_test'' \<mapsto> Dir []))
   \<and> eventsOf (runFuzzTest envDone (cmd0\<lparr>buildDir := ''/p/.cifuzz-build''\<rparr>) buildFs) =
       [EvMkdirAll ''/p/.cifuzz-corpus/my_fuzz_test'', EvRunnerRun doneRunnerOpts,
        EvWaitReturned None]
   \<and> ''/missing'' \<in> set (seedsDirs (opts cmdMissing))
   \<and> Stat buildFs ''/missing'' = Inl (PathError ''stat'' ''/missing'')
   \<and> runCommand envDone cmdMissing ''my_fuzz_test'' buildFs =
       Returns (Some ErrSilent, cmdMissing, buildFs, [])"
proof -
  let ?c = "cmd0\<lparr>buildDir := ''/p/.cifuzz-build''\<rparr>"
  have a1: "seedsDirs (opts cmdSeeds) = ''/seeds/a'' # [''/seeds/b'']"
    by (simp add: cmdSeeds_def)
  have a2: "findFuzzTestExecutable projFs (buildDir cmdSeeds) (fuzzTest (opts cmdSeeds))
       = Returns (''/p/.cifuzz-build/tests/my_fuzz_test'', None)"
    by (simp add: cmdSeeds_def cmd0_def findFuzzTestExecutable_projFs)
  have b1: "seedsDirs (opts ?c) = []" by (simp add: cmd0_def)
  have b2: "findFuzzTestExecutable buildFs (buildDir ?c) (fuzzTest (opts ?c))
       = Returns (''/p/.cifuzz-build/tests/my_fuzz_test'', None)"
    by (simp add: cmd0_def findFuzzTestExecutable_buildFs)
  have d: "defaultCorpusDir ?c = ''/p/.cifuzz-corpus/my_fuzz_test''"
    by (simp add: defaultCorpusDir_def cmd0_def Join_def Clean_def)
  have b3: "MkdirAll buildFs (defaultCorpusDir ?c)
       = (None, buildFs(''/p/.cifuzz-corpus/my_fuzz_test'' \<mapsto> Dir []))"
    by (simp add: d MkdirAll_buildFs)
  have c1: "''/missing'' \<in> set (seedsDirs (opts cmdMissing))"
    by (simp add: cmdMissing_def)
  have c2: "Stat buildFs ''/missing'' = Inl (PathError ''stat'' ''/missing'')"
    by (simp add: Stat_def buildFs_def)
  have c3: "cmdMissing\<lparr>opts := (opts cmdMissing)\<lparr>fuzzTest := ''my_fuzz_test''\<rparr>\<rparr> = cmdMissing"
    by (simp add: cmdMissing_def cmd0_def)
  note t = seed_corpus_set
  from t [where c = cmdSeeds and d = "''/seeds/a''" and ds = "[''/seeds/b'']" and fs = projFs
            and exe = "''/p/.cifuzz-build/tests/my_fuzz_test''" and env = envInterrupted] a1 a2
  obtain ro where r1: "SeedsDir ro = ''/seeds/a''" "AdditionalSeedsDirs ro = [''/seeds/b'']"
    "runFuzzTest envInterrupted cmdSeeds projFs =
       Returns (fst (routinesWait envInterrupted ro projFs), cmdSeeds,
                snd (routinesWait envInterrupted ro projFs),
                [EvRunnerRun ro, EvWaitReturned (fst (routinesWait envInterrupted ro projFs))])"
    by blast
  have ro: "ro = seedsRunnerOpts"
    using r1(3) a2
    by (simp add: runFuzzTest_def useDefaultCorpusDir_def runnerOpts_def cmdSeeds_def cmd0_def
        envInterrupted_def envDone_def seedsRunnerOpts_def doneRunnerOpts_def)
  have w1: "runFuzzTest envInterrupted cmdSeeds projFs =
       Returns (Some (SilentError (SignalError ''interrupt'')), cmdSeeds, projFs,
                [EvRunnerRun seedsRunnerOpts,
                 EvWaitReturned (Some (SilentError (SignalError ''interrupt'')))])"
    using r1(3) ro by (simp add: envInterrupted_def)
  from t [where c = ?c and fs = buildFs and exe = "''/p/.cifuzz-build/tests/my_fuzz_test''"
            and fs' = "buildFs(''/p/.cifuzz-corpus/my_fuzz_test'' \<mapsto> Dir [])"
            and env = envDone] b1 b2 b3
  obtain ro2 where r2: "SeedsDir ro2 = defaultCorpusDir ?c"
    "eventsOf (runFuzzTest envDone ?c buildFs) =
             [EvMkdirAll (defaultCorpusDir ?c), EvRunnerRun ro2,
              EvWaitReturned (fst (routinesWait envDone ro2
                 (buildFs(''/p/.cifuzz-corpus/my_fuzz_test'' \<mapsto> Dir []))))]"
    by blast
  have w2: "eventsOf (runFuzzTest envDone ?c buildFs) =
       [EvMkdirAll ''/p/.cifuzz-corpus/my_fuzz_test'', EvRunnerRun doneRunnerOpts,
        EvWaitReturned None]"
    by (simp add: runFuzzTest_envDone)
  from t [where c = cmdMissing and fs = buildFs and x = "''/missing''"
            and e = "PathError ''stat'' ''/missing''" and env = envDone
            and arg = "''my_fuzz_test''"] c1 c2 c3
  have w3: "runCommand envDone cmdMissing ''my_fuzz_test'' buildFs =
       Returns (Some ErrSilent, cmdMissing, buildFs, [])"
    by simp
  from a1 a2 w1 b1 b3 w2 c1 c2 w3 show ?thesis by simp
qed

text \<open>
  The claim as it was stated fails where the seed directory given does not exist: the
  command returns \<open>ErrSilent\<close> from \<open>validate\<close>, no runner is started and the
  directory is not created.
\<close>

theorem seed_corpus_set_counterexample:
  "runCommand envDone cmdMissing ''my_fuzz_test'' buildFs =
     Returns (Some ErrSilent, cmdMissing, buildFs, [])
   \<and> seedsDirs (opts cmdMissing) = [''/missing'']
   \<and> buildFs ''/missing'' = None"
  by (simp add: runCommand_def validate_def Stat_def buildFs_def cmdMissing_def cmd0_def)

section \<open>Properties of the coverage command\<close>

lemma resolveCorpusDirs_ok:
  "resolveCorpusDirs env ds = (ps, None) \<Longrightarrow>
   list_all2 (\<lambda>d p. EvalSymlinks env d = (p, None)) ds ps"
proof (induction ds arbitrary: ps)
  case Nil
  then show ?case by simp
next
  case (Cons d ds)
  then show ?case
    by (auto split: prod.splits option.splits)
qed

lemma resolveCorpusDirs_fail:
  "d \<in> set ds \<Longrightarrow> EvalSymlinks env d = (p, Some e) \<Longrightarrow>
   \<exists>e'. resolveCorpusDirs env ds = ([], Some (WithStack e'))"
proof (induction ds)
  case Nil
  then show ?case by simp
next
  case (Cons a ds)
  show ?case
  proof (cases "EvalSymlinks env a")
    case (Pair q r)
    show ?thesis
    proof (cases r)
      case (Some x)
      with Pair show ?thesis by simp
    next
      case None
      with Pair Cons.prems have "d \<in> set ds" by auto
      from Cons.IH [OF this Cons.prems(2)] Pair None show ?thesis by auto
    qed
  qed
qed

lemma execCommand_events:
  "execCommand env args w = Returns (r, evs) \<Longrightarrow> EvNewMinijail mo \<notin> set evs"
  by (auto simp: execCommand_def split: list.splits option.splits)

lemma withCleanup_Returns:
  "withCleanup pre out = Returns (r, evs) \<Longrightarrow>
   \<exists>evs2. out = Returns (r, evs2) \<and> evs = pre @ evs2 @ [EvMinijailCleanup]"
  by (cases out) auto

lemma coverage_bindings:
  assumes g: "gatherCorpusDirs env opt br = (ds, None)"
    and r: "coverageRunFuzzTest env opt tmpDir br = Returns (res, evs)"
    and m: "EvNewMinijail mo \<in> set evs"
  shows "\<exists>ps. resolveCorpusDirs env ds = (ps, None)
      \<and> Bindings mo = \<lparr>Source = Executable br\<rparr> # map (\<lambda>p. \<lparr>Source = p\<rparr>) ps"
proof -
  obtain ps e where rs: "resolveCorpusDirs env ds = (ps, e)"
    by (cases "resolveCorpusDirs env ds")
  obtain b se where s: "Setenv env [] ''LLVM_PROFILE_FILE'' (rawProfilePattern tmpDir) = (b, se)"
    by (cases "Setenv env [] ''LLVM_PROFILE_FILE'' (rawProfilePattern tmpDir)")
  define args where "args = (if FuzzTestArgs opt \<noteq> []
        then ((Executable br # ps) @ [''--'']) @ FuzzTestArgs opt else Executable br # ps)"
  define mo0 where "mo0 = \<lparr>Args = args,
        Bindings = \<lparr>Source = Executable br\<rparr> # map (\<lambda>dir. \<lparr>Source = dir\<rparr>) ps, Env = b\<rparr>"
  obtain a ne where n: "NewMinijail env mo0 = (a, ne)" by (cases "NewMinijail env mo0")
  from r m have en: "e = None" and sn: "se = None" and sb: "UseSandbox opt"
    using g rs s execCommand_events [of env _ _ _ _ mo]
    by (auto simp: coverageRunFuzzTest_def Let_def split: option.splits prod.splits if_splits)
  from r g rs s en sn sb n
  have c: "(case ne of Some err \<Rightarrow> Returns (Some err, [EvNewMinijail mo0])
            | None \<Rightarrow> withCleanup [EvNewMinijail mo0] (execCommand env a (Environ env)))
           = Returns (res, evs)"
    unfolding mo0_def args_def by (simp add: coverageRunFuzzTest_def Let_def)
  have "mo = mo0"
  proof (cases ne)
    case (Some x)
    with c m show ?thesis by auto
  next
    case None
    with c have "withCleanup [EvNewMinijail mo0] (execCommand env a (Environ env)) = Returns (res, evs)"
      by simp
    from withCleanup_Returns [OF this] obtain evs2
      where x: "execCommand env a (Environ env) = Returns (res, evs2)"
        and ev: "evs = [EvNewMinijail mo0] @ evs2 @ [EvMinijailCleanup]" by blast
    from execCommand_events [OF x, of mo] ev m show ?thesis by auto
  qed
  with rs en show ?thesis by (simp add: mo0_def)
qed

lemma validateSeedsDirs_Some:
  "validateSeedsDirs fs ds = Some a \<Longrightarrow> a = ErrSilent"
  by (induction ds) (auto split: sum.splits)

lemma validate_ok:
  assumes "validate fs ro = None"
  shows "x \<in> set (seedsDirs ro) \<Longrightarrow> \<exists>info. Stat fs x = Inr info"
    and "dictionary ro \<noteq> [] \<Longrightarrow> \<exists>info. Stat fs (dictionary ro) = Inr info"
  using assms validateSeedsDirs_ok [of fs "seedsDirs ro" x]
  by (auto simp: validate_def split: option.splits if_splits sum.splits)

lemma validate_fail:
  assumes "x \<in> set (seedsDirs ro) \<or> (x = dictionary ro \<and> x \<noteq> [])" and "Stat fs x = Inl e"
  shows "validate fs ro = Some ErrSilent"
proof (cases "validateSeedsDirs fs (seedsDirs ro)")
  case None
  with assms validateSeedsDirs_fail [of x "seedsDirs ro" fs e] show ?thesis
    by (auto simp: validate_def)
next
  case (Some a)
  with validateSeedsDirs_Some [OF Some] show ?thesis by (simp add: validate_def)
qed

lemma coverage_unresolved:
  assumes "gatherCorpusDirs env opt br = (ds, None)"
    and "d \<in> set ds" and "EvalSymlinks env d = (p, Some e)"
  shows "\<exists>e'. coverageRunFuzzTest env opt tmpDir br = Returns (Some (WithStack e'), [])"
proof -
  from resolveCorpusDirs_fail [OF assms(2,3)]
  obtain e' where "resolveCorpusDirs env ds = ([], Some (WithStack e'))" by blast
  with assms(1) show ?thesis by (simp add: coverageRunFuzzTest_def)
qed

lemma gatherCorpusDirs_covEnv0:
  "gatherCorpusDirs covEnv0 covOpts0 buildResult0 = ([''/p/corpus''], None)"
  "gatherCorpusDirs covEnv0 covOptsMissing buildResult0 = ([''/p/corpus'', ''/p/nope''], None)"
  by (simp_all add: gatherCorpusDirs_def covEnv0_def covOpts0_def covOptsMissing_def)

lemma EvalSymlinks_covEnv0:
  "EvalSymlinks covEnv0 ''/p/corpus'' = (''/data/corpus'', None)"
  "EvalSymlinks covEnv0 ''/p/build/fuzz'' = (''/p/.cifuzz-build/fuzz'', None)"
  "EvalSymlinks covEnv0 ''/p/nope'' = ([], Some (PathError ''lstat'' ''/p/nope''))"
  by (simp_all add: covEnv0_def)

lemma coverageRunFuzzTest_covEnv0:
  "coverageRunFuzzTest covEnv0 covOpts0 ''/tmp/coverage-1'' buildResult0 =
     Returns (None,
       [EvNewMinijail minijailOptions0,
        EvExec [''minijail0'', ''--'', ''/p/build/fuzz'', ''/data/corpus''] [''PATH=/usr/bin''],
        EvMinijailCleanup])"
  by (simp add: coverageRunFuzzTest_def gatherCorpusDirs_def rawProfilePattern_def Join_def Clean_def
      execCommand_def covEnv0_def covOpts0_def buildResult0_def minijailOptions0_def Let_def)

text \<open>
  C3 (amended). In the coverage command every corpus directory is replaced by what
  \<open>EvalSymlinks\<close> gives for it before the jail is made: the bindings handed to
  \<open>NewMinijail\<close> are the executable of the build result, as the build gave it, and
  the resolved corpus directories. A corpus directory that \<open>EvalSymlinks\<close> cannot
  resolve makes \<open>runFuzzTest\<close> return the error, before a jail is made or a command
  run. In the run command \<open>validate\<close> returns nil only if every seed directory can be
  statted, and \<open>ErrSilent\<close> if a seed directory or the dictionary cannot.
\<close>

theorem bindings_resolved:
  "(gatherCorpusDirs env opt br = (ds, None) \<longrightarrow>
    coverageRunFuzzTest env opt tmpDir br = Returns (res, evs) \<longrightarrow>
    EvNewMinijail mo \<in> set evs \<longrightarrow>
      (\<exists>ps. list_all2 (\<lambda>d p. EvalSymlinks env d = (p, None)) ds ps
         \<and> Bindings mo = \<lparr>Source = Executable br\<rparr> # map (\<lambda>p. \<lparr>Source = p\<rparr>) ps))
   \<and> (gatherCorpusDirs env opt br = (ds, None) \<longrightarrow> d \<in> set ds \<longrightarrow>
      EvalSymlinks env d = (p, Some e) \<longrightarrow>
      (\<exists>e'. coverageRunFuzzTest env opt tmpDir br = Returns (Some (WithStack e'), [])))
   \<and> (validate fs ro = None \<longrightarrow> x \<in> set (seedsDirs ro) \<longrightarrow> (\<exists>info. Stat fs x = Inr info))
   \<and> ((y \<in> set (seedsDirs ro) \<or> (y = dictionary ro \<and> y \<noteq> [])) \<longrightarrow> Stat fs y = Inl e2 \<longrightarrow>
      validate fs ro = Some ErrSilent)"
proof (intro conjI impI)
  assume g: "gatherCorpusDirs env opt br = (ds, None)"
    and r: "coverageRunFuzzTest env opt tmpDir br = Returns (res, evs)"
    and m: "EvNewMinijail mo \<in> set evs"
  from coverage_bindings [OF g r m] obtain ps
    where "resolveCorpusDirs env ds = (ps, None)"
      and b: "Bindings mo = \<lparr>Source = Executable br\<rparr> # map (\<lambda>p. \<lparr>Source = p\<rparr>) ps" by blast
  from resolveCorpusDirs_ok [OF this(1)] b
  show "\<exists>ps. list_all2 (\<lambda>d p. EvalSymlinks env d = (p, None)) ds ps
         \<and> Bindings mo = \<lparr>Source = Executable br\<rparr> # map (\<lambda>p. \<lparr>Source = p\<rparr>) ps" by blast
next
  assume "gatherCorpusDirs env opt br = (ds, None)" "d \<in> set ds"
    "EvalSymlinks env d = (p, Some e)"
  then show "\<exists>e'. coverageRunFuzzTest env opt tmpDir br = Returns (Some (WithStack e'), [])"
    by (rule coverage_unresolved)
next
  assume "validate fs ro = None" "x \<in> set (seedsDirs ro)"
  then show "\<exists>info. Stat fs x = Inr info" by (rule validate_ok(1))
next
  assume "y \<in> set (seedsDirs ro) \<or> (y = dictionary ro \<and> y \<noteq> [])" "Stat fs y = Inl e2"
  then show "validate fs ro = Some ErrSilent" by (rule validate_fail)
qed

text \<open>
  The four parts on the examples: the corpus link resolved in the binding, the corpus
  directory \<open>/p/nope\<close> that cannot be resolved, and \<open>validate\<close> on seed directories
  that exist and on one that does not.
\<close>

theorem bindings_resolved_witness:
  "gatherCorpusDirs covEnv0 covOpts0 buildResult0 = ([''/p/corpus''], None)
   \<and> coverageRunFuzzTest covEnv0 covOpts0 ''/tmp/coverage-1'' buildResult0 =
       Returns (None,
         [EvNewMinijail minijailOptions0,
          EvExec [''minijail0'', ''--'', ''/p/build/fuzz'', ''/data/corpus''] [''PATH=/usr/bin''],
          EvMinijailCleanup])
   \<and> Bindings minijailOptions0 = [\<lparr>Source = ''/p/build/fuzz''\<rparr>, \<lparr>Source = ''/data/corpus''\<rparr>]
   \<and> EvalSymlinks covEnv0 ''/p/corpus'' = (''/data/corpus'', None)
   \<and> gatherCorpusDirs covEnv0 covOptsMissing buildResult0 = ([''/p/corpus'', ''/p/nope''], None)
   \<and> EvalSymlinks covEnv0 ''/p/nope'' = ([], Some (PathError ''lstat'' ''/p/nope''))
   \<and> coverageRunFuzzTest covEnv0 covOptsMissing ''/tmp/coverage-1'' buildResult0 =
       Returns (Some (WithStack (PathError ''lstat'' ''/p/nope'')), [])
   \<and> validate projFs (opts cmdSeeds) = None
   \<and> (\<exists>info. Stat projFs ''/seeds/a'' = Inr info)
   \<and> Stat buildFs ''/missing'' = Inl (PathError ''stat'' ''/missing'')
   \<and> validate buildFs (opts cmdMissing) = Some ErrSilent"
proof -
  note t1 = bindings_resolved [THEN conjunct1, rule_format]
  note t2 = bindings_resolved [THEN conjunct2, THEN conjunct1, rule_format]
  note t3 = bindings_resolved [THEN conjunct2, THEN conjunct2, THEN conjunct1, rule_format]
  note t4 = bindings_resolved [THEN conjunct2, THEN conjunct2, THEN conjunct2, rule_format]
  have m: "EvNewMinijail minijailOptions0 \<in> set
         [EvNewMinijail minijailOptions0,
          EvExec [''minijail0'', ''--'', ''/p/build/fuzz'', ''/data/corpus''] [''PATH=/usr/bin''],
          EvMinijailCleanup]" by simp
  from t1 [OF gatherCorpusDirs_covEnv0(1) coverageRunFuzzTest_covEnv0 m]
  obtain ps where ps: "list_all2 (\<lambda>d p. EvalSymlinks covEnv0 d = (p, None)) [''/p/corpus''] ps"
    "Bindings minijailOptions0 = \<lparr>Source = Executable buildResult0\<rparr> # map (\<lambda>p. \<lparr>Source = p\<rparr>) ps"
    by blast
  from ps(1) have "ps = [''/data/corpus'']"
    by (auto simp: list_all2_Cons1 EvalSymlinks_covEnv0)
  with ps(2) have w1: "Bindings minijailOptions0
       = [\<lparr>Source = ''/p/build/fuzz''\<rparr>, \<lparr>Source = ''/data/corpus''\<rparr>]"
    by (simp add: buildResult0_def)
  have n: "''/p/nope'' \<in> set [''/p/corpus'', ''/p/nope'']" by simp
  from t2 [OF gatherCorpusDirs_covEnv0(2) n EvalSymlinks_covEnv0(3), of "''/tmp/coverage-1''"]
  obtain e' where e': "coverageRunFuzzTest covEnv0 covOptsMissing ''/tmp/coverage-1'' buildResult0
       = Returns (Some (WithStack e'), [])" by blast
  have w2: "coverageRunFuzzTest covEnv0 covOptsMissing ''/tmp/coverage-1'' buildResult0 =
       Returns (Some (WithStack (PathError ''lstat'' ''/p/nope'')), [])"
    using e' by (simp add: coverageRunFuzzTest_def gatherCorpusDirs_covEnv0 EvalSymlinks_covEnv0)
  have v: "validate projFs (opts cmdSeeds) = None"
    by (simp add: validate_def cmdSeeds_def cmd0_def Stat_def projFs_def seedsFs_def map_add_def)
  have s: "''/seeds/a'' \<in> set (seedsDirs (opts cmdSeeds))" by (simp add: cmdSeeds_def)
  from t3 [OF v s]
  have w3: "\<exists>info. Stat projFs ''/seeds/a'' = Inr info" .
  have c1: "''/missing'' \<in> set (seedsDirs (opts cmdMissing))
       \<or> (''/missing'' = dictionary (opts cmdMissing) \<and> ''/missing'' \<noteq> [])"
    by (simp add: cmdMissing_def)
  have c2: "Stat buildFs ''/missing'' = Inl (PathError ''stat'' ''/missing'')"
    by (simp add: Stat_def buildFs_def)
  from t4 [OF c1 c2]
  have w4: "validate buildFs (opts cmdMissing) = Some ErrSilent" .
  from gatherCorpusDirs_covEnv0 coverageRunFuzzTest_covEnv0 EvalSymlinks_covEnv0 w1 w2 v w3 c2 w4
  show ?thesis by simp
qed

text \<open>
  The claim as it was stated fails for the executable: its path goes into the binding
  as the build gave it, here through the link \<open>/p/build\<close>, while \<open>EvalSymlinks\<close>
  would give \<open>/p/.cifuzz-build/fuzz\<close>.
\<close>

theorem bindings_resolved_counterexample:
  "coverageRunFuzzTest covEnv0 covOpts0 ''/tmp/coverage-1'' buildResult0 =
     Returns (None,
       [EvNewMinijail
          \<lparr>Args = [''/p/build/fuzz'', ''/data/corpus''],
           Bindings = [\<lparr>Source = ''/p/build/fuzz''\<rparr>, \<lparr>Source = ''/data/corpus''\<rparr>],
           Env = [''LLVM_PROFILE_FILE=/tmp/coverage-1/%m.profraw'']\<rparr>,
        EvExec [''minijail0'', ''--'', ''/p/build/fuzz'', ''/data/corpus''] [''PATH=/usr/bin''],
        EvMinijailCleanup])
   \<and> EvalSymlinks covEnv0 ''/p/build/fuzz'' = (''/p/.cifuzz-build/fuzz'', None)"
  by (simp add: coverageRunFuzzTest_def gatherCorpusDirs_def rawProfilePattern_def Join_def Clean_def
      execCommand_def covEnv0_def covOpts0_def buildResult0_def Let_def)

section \<open>Properties of the report aggregator\<close>

text \<open>What holds of an aggregator throughout a run.\<close>

lemma AddFinding_step:
  assumes "set (seen a) = identity norm ` set (emitted a)"
    and "distinct (map (identity norm) (emitted a))"
    and "findingCount a = length (emitted a)"
  shows "set (seen (AddFinding norm a f)) = identity norm ` set (emitted (AddFinding norm a f))"
    and "distinct (map (identity norm) (emitted (AddFinding norm a f)))"
    and "findingCount (AddFinding norm a f) = length (emitted (AddFinding norm a f))"
    and "rawOccurrences (AddFinding norm a f) = rawOccurrences a + 1"
    and "set (seen (AddFinding norm a f)) = insert (identity norm f) (set (seen a))"
  using assms by (auto simp: AddFinding_def Let_def)

lemma foldl_AddFinding:
  assumes "set (seen a) = identity norm ` set (emitted a)"
    and "distinct (map (identity norm) (emitted a))"
    and "findingCount a = length (emitted a)"
  shows "set (seen (foldl (AddFinding norm) a fs)) = identity norm ` set (emitted (foldl (AddFinding norm) a fs))
     \<and> distinct (map (identity norm) (emitted (foldl (AddFinding norm) a fs)))
     \<and> findingCount (foldl (AddFinding norm) a fs) = length (emitted (foldl (AddFinding norm) a fs))
     \<and> rawOccurrences (foldl (AddFinding norm) a fs) = rawOccurrences a + length fs
     \<and> set (seen (foldl (AddFinding norm) a fs)) = set (seen a) \<union> identity norm ` set fs"
  using assms
proof (induction fs arbitrary: a)
  case Nil
  then show ?case by simp
next
  case (Cons f fs)
  note s = AddFinding_step [OF Cons.prems, of f]
  from Cons.IH [OF s(1) s(2) s(3)] s(4) s(5) show ?case by auto
qed

lemma newAggregator_invariant:
  "set (seen newAggregator) = identity norm ` set (emitted newAggregator)"
  "distinct (map (identity norm) (emitted newAggregator))"
  "findingCount newAggregator = length (emitted newAggregator)"
  by (simp_all add: newAggregator_def)

lemma newAggregator_empty:
  "rawOccurrences newAggregator = 0" "set (seen newAggregator) = {}"
  by (simp_all add: newAggregator_def)

lemmas foldl_AddFinding_new =
  foldl_AddFinding [OF newAggregator_invariant(1) newAggregator_invariant(2) newAggregator_invariant(3)]

lemma addAll_invariant:
  "set (seen (addAll norm fs)) = identity norm ` set (emitted (addAll norm fs))"
  "distinct (map (identity norm) (emitted (addAll norm fs)))"
  "findingCount (addAll norm fs) = length (emitted (addAll norm fs))"
  "rawOccurrences (addAll norm fs) = length fs"
  "set (seen (addAll norm fs)) = identity norm ` set fs"
proof -
  note f = foldl_AddFinding_new [of norm fs]
  from f show "set (seen (addAll norm fs)) = identity norm ` set (emitted (addAll norm fs))"
    unfolding addAll_def by (rule conjunct1)
  from f show "distinct (map (identity norm) (emitted (addAll norm fs)))"
    unfolding addAll_def by (elim conjE)
  from f show "findingCount (addAll norm fs) = length (emitted (addAll norm fs))"
    unfolding addAll_def by (elim conjE)
  from f have "rawOccurrences (foldl (AddFinding norm) newAggregator fs)
      = rawOccurrences newAggregator + length fs" by (elim conjE)
  then show "rawOccurrences (addAll norm fs) = length fs"
    unfolding addAll_def by (simp add: newAggregator_empty)
  from f have "set (seen (foldl (AddFinding norm) newAggregator fs))
      = set (seen newAggregator) \<union> identity norm ` set fs" by (elim conjE)
  then show "set (seen (addAll norm fs)) = identity norm ` set fs"
    unfolding addAll_def by (simp add: newAggregator_empty)
qed

lemma distinct_map_filter_le:
  "distinct (map g xs) \<Longrightarrow> length (filter (\<lambda>x. g x = i) xs) = (if i \<in> g ` set xs then 1 else 0)"
  by (induction xs) (auto simp: image_iff)

lemma emitted_once:
  "length (filter (\<lambda>f. identity norm f = i) (emitted (addAll norm fs)))
     = (if i \<in> identity norm ` set fs then 1 else 0)"
proof -
  have "identity norm ` set (emitted (addAll norm fs)) = identity norm ` set fs"
    using addAll_invariant(1) [of norm fs] addAll_invariant(5) [of norm fs] by simp
  with distinct_map_filter_le [OF addAll_invariant(2), where i = i and norm1 = norm and fs1 = fs]
  show ?thesis by simp
qed

lemma emitted_single:
  assumes "fs \<noteq> []" and "\<forall>f \<in> set fs. identity norm f = i"
  shows "length (emitted (addAll norm fs)) = 1"
proof -
  from assms have im: "identity norm ` set fs = {i}" by (cases fs) auto
  have "\<forall>f \<in> set (emitted (addAll norm fs)). identity norm f = i"
    using addAll_invariant(1) [of norm fs] addAll_invariant(5) [of norm fs] im by auto
  then have "filter (\<lambda>f. identity norm f = i) (emitted (addAll norm fs)) = emitted (addAll norm fs)"
    by (simp add: filter_id_conv)
  with emitted_once [of norm i fs] im show ?thesis by simp
qed

text \<open>
  C7. For an output stream in which \<open>N\<close> findings are recognised, \<open>N > 0\<close>, all of
  the same identity, the aggregator emits exactly one finding, counts one, and its
  raw-occurrence counter is \<open>N\<close>. In any stream a finding of an identity that occurs
  is emitted exactly once, and the raw-occurrence counter is the number of findings
  added.
\<close>

theorem same_signature_emitted_once:
  assumes "fs \<noteq> []" and "\<forall>f \<in> set fs. identity norm f = i"
  shows "length (emitted (addAll norm fs)) = 1
     \<and> findingCount (addAll norm fs) = 1
     \<and> rawOccurrences (addAll norm fs) = length fs
     \<and> length (filter (\<lambda>f. identity norm f = i) (emitted (addAll norm (pre @ fs @ post)))) = 1
     \<and> rawOccurrences (addAll norm (pre @ fs @ post)) = length pre + length fs + length post"
proof -
  from assms have "i \<in> identity norm ` set (pre @ fs @ post)" by (cases fs) auto
  with emitted_once [of norm i "pre @ fs @ post"]
  have "length (filter (\<lambda>f. identity norm f = i) (emitted (addAll norm (pre @ fs @ post)))) = 1"
    by simp
  with emitted_single [OF assms] addAll_invariant(3,4) [of norm fs]
    addAll_invariant(4) [of norm "pre @ fs @ post"]
  show ?thesis by simp
qed

theorem same_signature_emitted_once_witness:
  "[overflowAt ''0x602000000011'', overflowAt ''0x602000000345'', overflowAt ''0x602000000777''] \<noteq> []
   \<and> identity dropDigits (overflowAt ''0x602000000011'') = (KCrash, ''heap-buffer-overflow on address x'')
   \<and> identity dropDigits (overflowAt ''0x602000000345'') = (KCrash, ''heap-buffer-overflow on address x'')
   \<and> identity dropDigits (overflowAt ''0x602000000777'') = (KCrash, ''heap-buffer-overflow on address x'')
   \<and> emitted (addAll dropDigits
        [overflowAt ''0x602000000011'', overflowAt ''0x602000000345'', overflowAt ''0x602000000777''])
       = [overflowAt ''0x602000000011'']
   \<and> rawOccurrences (addAll dropDigits
        [overflowAt ''0x602000000011'', overflowAt ''0x602000000345'', overflowAt ''0x602000000777''])
       = 3"
proof -
  let ?fs = "[overflowAt ''0x602000000011'', overflowAt ''0x602000000345'', overflowAt ''0x602000000777'']"
  have i: "identity dropDigits (overflowAt ''0x602000000011'') = (KCrash, ''heap-buffer-overflow on address x'')"
    "identity dropDigits (overflowAt ''0x602000000345'') = (KCrash, ''heap-buffer-overflow on address x'')"
    "identity dropDigits (overflowAt ''0x602000000777'') = (KCrash, ''heap-buffer-overflow on address x'')"
    by (simp_all add: identity_def overflowAt_def dropDigits_def)
  have ne: "?fs \<noteq> []" by simp
  have all: "\<forall>f \<in> set ?fs. identity dropDigits f = (KCrash, ''heap-buffer-overflow on address x'')"
    using i by simp
  from same_signature_emitted_once [OF ne all, of "[]" "[]"]
  have l: "length (emitted (addAll dropDigits ?fs)) = 1" and r: "rawOccurrences (addAll dropDigits ?fs) = 3"
    by simp_all
  have "emitted (addAll dropDigits ?fs) = [overflowAt ''0x602000000011'']"
    using l by (simp add: addAll_def newAggregator_def AddFinding_def i Let_def split: if_splits)
  with i r show ?thesis by simp
qed

end
